theory Spec2Isabelle
  imports Complex_Main "HOL-Library.Sublist"
begin

section \<open>JavaScript strings and numbers\<close>

text \<open>
  Strings are HOL strings. The string operations the services call (\<open>trim\<close>,
  \<open>toLowerCase\<close>, \<open>includes\<close>, \<open>startsWith\<close>, \<open>split\<close> with a non-empty string
  separator, \<open>parseInt\<close>) follow ECMAScript on ASCII text; bytes above 127 are carried
  through unchanged and are never white space.

  A number is an integer or \<open>NaN\<close>: every number the services compute comes from
  \<open>parseInt\<close>, multiplication by 60 and addition. Digit strings are read exactly
  (as a double does below \<open>2 ^ 53\<close>).
\<close>

datatype jsnum = Num int | NaN

definition isWhiteSpace :: "char \<Rightarrow> bool" where
  "isWhiteSpace c \<longleftrightarrow> c \<in> {CHR 0x09, CHR 0x0A, CHR 0x0B, CHR 0x0C, CHR 0x0D, CHR 0x20}"

definition trim :: "string \<Rightarrow> string" where
  "trim s = rev (dropWhile isWhiteSpace (rev (dropWhile isWhiteSpace s)))"

definition lowerChar :: "char \<Rightarrow> char" where
  "lowerChar c =
     (let n = (of_char c :: nat) in if 65 \<le> n \<and> n \<le> 90 then char_of (n + 32) else c)"

definition toLowerCase :: "string \<Rightarrow> string" where
  "toLowerCase s = map lowerChar s"

definition startsWith :: "string \<Rightarrow> string \<Rightarrow> bool" where
  "startsWith s p = prefix p s"

text \<open>\<open>s.includes(sub)\<close>: some position of \<open>s\<close> starts with \<open>sub\<close>.\<close>

fun includesStr :: "string \<Rightarrow> string \<Rightarrow> bool" where
  "includesStr [] sub = (sub = [])"
| "includesStr (c # cs) sub = (prefix sub (c # cs) \<or> includesStr cs sub)"

text \<open>
  \<open>s.split(sep)\<close> for a non-empty separator \<open>d # ds\<close>: the pieces between the
  successive, non-overlapping occurrences of the separator found from the left. The
  accumulator holds the current piece reversed.
\<close>

fun splitAcc :: "char \<Rightarrow> string \<Rightarrow> string \<Rightarrow> string \<Rightarrow> string list" where
  "splitAcc d ds acc [] = [rev acc]"
| "splitAcc d ds acc (c # cs) =
     (if prefix (d # ds) (c # cs)
      then rev acc # splitAcc d ds [] (drop (length ds) cs)
      else splitAcc d ds (c # acc) cs)"

definition split :: "string \<Rightarrow> string \<Rightarrow> string list" where
  "split s sep = (case sep of d # ds \<Rightarrow> splitAcc d ds [] s | [] \<Rightarrow> map (\<lambda>c. [c]) s)"

text \<open>
  \<open>parseInt(s, radix)\<close>, radix \<open>0\<close> standing for an omitted radix: skip leading white
  space, read a sign, strip \<open>0x\<close> when the radix is 16 or omitted, read the longest
  run of digits of the radix; no digit at all gives \<open>NaN\<close>.
\<close>

definition digitVal :: "char \<Rightarrow> nat" where
  "digitVal c =
     (let n = (of_char c :: nat) in
      if 48 \<le> n \<and> n \<le> 57 then n - 48
      else if 97 \<le> n \<and> n \<le> 122 then n - 87
      else if 65 \<le> n \<and> n \<le> 90 then n - 55
      else 36)"

definition isDigitOf :: "nat \<Rightarrow> char \<Rightarrow> bool" where
  "isDigitOf r c \<longleftrightarrow> digitVal c < r"

definition digitsValue :: "nat \<Rightarrow> string \<Rightarrow> nat" where
  "digitsValue r z = foldl (\<lambda>a c. a * r + digitVal c) 0 z"

definition parseInt :: "string \<Rightarrow> nat \<Rightarrow> jsnum" where
  "parseInt s radix =
     (let s1 = dropWhile isWhiteSpace s;
          neg = (case s1 of c # _ \<Rightarrow> c = CHR ''-'' | [] \<Rightarrow> False);
          s2 = (case s1 of c # cs \<Rightarrow> if c = CHR ''+'' \<or> c = CHR ''-'' then cs else s1
                | [] \<Rightarrow> s1)
      in if radix \<noteq> 0 \<and> (radix < 2 \<or> 36 < radix) then NaN
         else
           let stripPrefix = (radix = 0 \<or> radix = 16);
               hex = (stripPrefix \<and> (prefix ''0x'' s2 \<or> prefix ''0X'' s2));
               r = (if hex then 16 else if radix = 0 then 10 else radix);
               s3 = (if hex then drop 2 s2 else s2);
               z = takeWhile (isDigitOf r) s3
           in if z = [] then NaN
              else Num ((if neg then - 1 else 1) * int (digitsValue r z)))"

text \<open>Multiplication and addition propagate \<open>NaN\<close>.\<close>

fun jsTimes :: "jsnum \<Rightarrow> jsnum \<Rightarrow> jsnum" where
  "jsTimes (Num a) (Num b) = Num (a * b)"
| "jsTimes _ _ = NaN"

fun jsPlus :: "jsnum \<Rightarrow> jsnum \<Rightarrow> jsnum" where
  "jsPlus (Num a) (Num b) = Num (a + b)"
| "jsPlus _ _ = NaN"

text \<open>\<open>x || 0\<close> on a number: \<open>0\<close> and \<open>NaN\<close> are falsy.\<close>

fun orZero :: "jsnum \<Rightarrow> int" where
  "orZero (Num n) = n"
| "orZero NaN = 0"

text \<open>Decimal rendering of an integer inside a template string.\<close>

definition showDigit :: "nat \<Rightarrow> char" where
  "showDigit n = ''0123456789'' ! (n mod 10)"

fun showNat :: "nat \<Rightarrow> string" where
  "showNat n = (if n < 10 then [showDigit n] else showNat (n div 10) @ [showDigit n])"

definition showInt :: "int \<Rightarrow> string" where
  "showInt i = (if i < 0 then CHR ''-'' # showNat (nat (- i)) else showNat (nat i))"

section \<open>Time strings\<close>

text \<open>\<open>parseDuration\<close> of the Linux service (\<open>parseInt\<close> without a radix).\<close>

definition parseDuration :: "string \<Rightarrow> jsnum" where
  "parseDuration duration =
     (if duration = [] then Num 0
      else let parts = split duration '':''
           in if length parts = 2
              then jsPlus (jsTimes (parseInt (parts ! 0) 0) (Num 60)) (parseInt (parts ! 1) 0)
              else Num 0)"

text \<open>\<open>parseTimeToSeconds\<close> of the Windows service (\<open>parseInt(_, 10) || 0\<close>).\<close>

definition parseTimeToSeconds :: "string \<Rightarrow> jsnum" where
  "parseTimeToSeconds timeString =
     (if timeString = [] \<or> timeString = ''00:00'' then Num 0
      else let parts = split timeString '':''
           in if length parts = 2
              then let minutes = orZero (parseInt (parts ! 0) 10);
                       seconds = orZero (parseInt (parts ! 1) 10)
                   in Num (minutes * 60 + seconds)
              else Num 0)"

section \<open>Status strings\<close>

text \<open>\<open>mapPlaybackStatus\<close> of the Windows service.\<close>

definition mapPlaybackStatus :: "string \<Rightarrow> string" where
  "mapPlaybackStatus status =
     (if status = [] then ''stopped''
      else let normalizedStatus = toLowerCase status
           in if includesStr normalizedStatus ''play'' then ''playing''
              else if includesStr normalizedStatus ''pause'' then ''paused''
              else ''stopped'')"

text \<open>
  The status field of the Linux service: \<open>parts[6]?.toLowerCase() || 'stopped'\<close>.
\<close>

definition linuxStatus :: "string \<Rightarrow> string" where
  "linuxStatus raw = (let l = toLowerCase raw in if l = [] then ''stopped'' else l)"

section \<open>Track records\<close>

text \<open>
  A value as it exists at run time. The Windows service reads its fields from
  \<open>JSON.parse\<close>, whose result is untyped, so a text field of a track can hold any
  value that is truthy; the Linux service only ever stores strings.
\<close>

datatype json =
    JNull
  | JBool bool
  | JNum rat
  | JStr string
  | JArr "json list"
  | JObj "(string \<times> json) list"

fun truthy :: "json \<Rightarrow> bool" where
  "truthy JNull = False"
| "truthy (JBool b) = b"
| "truthy (JNum q) = (q \<noteq> 0)"
| "truthy (JStr s) = (s \<noteq> [])"
| "truthy (JArr _) = True"
| "truthy (JObj _) = True"

text \<open>
  \<open>a === b\<close> on values of two different samples: primitives compare by value, and
  two arrays or objects are never the same reference.
\<close>

fun strictEq :: "json \<Rightarrow> json \<Rightarrow> bool" where
  "strictEq JNull JNull = True"
| "strictEq (JBool a) (JBool b) = (a = b)"
| "strictEq (JNum a) (JNum b) = (a = b)"
| "strictEq (JStr a) (JStr b) = (a = b)"
| "strictEq _ _ = False"

text \<open>The interface \<open>TrackInfo\<close>; \<open>duration\<close>, \<open>position\<close> and \<open>player\<close> are optional.\<close>

record TrackInfo =
  title :: json
  artUrl :: json
  artist :: json
  album :: json
  duration :: "jsnum option"
  position :: "jsnum option"
  status :: string
  player :: "string option"

text \<open>\<open>(track.position || 0)\<close>: a missing position, \<open>0\<close> and \<open>NaN\<close> all read as \<open>0\<close>.\<close>

definition positionOrZero :: "TrackInfo \<Rightarrow> int" where
  "positionOrZero t = (case position t of None \<Rightarrow> 0 | Some x \<Rightarrow> orZero x)"

text \<open>
  \<open>hasTrackChanged\<close>, the same in both services; the first argument is the field
  \<open>currentTrack\<close>.
\<close>

fun hasTrackChanged :: "TrackInfo option \<Rightarrow> TrackInfo option \<Rightarrow> bool" where
  "hasTrackChanged None None = False"
| "hasTrackChanged None (Some newTrack) = True"
| "hasTrackChanged (Some currentTrack) None = True"
| "hasTrackChanged (Some currentTrack) (Some newTrack) =
     (\<not> strictEq (title currentTrack) (title newTrack) \<or>
      \<not> strictEq (artist currentTrack) (artist newTrack) \<or>
      status currentTrack \<noteq> status newTrack \<or>
      2 < \<bar>positionOrZero currentTrack - positionOrZero newTrack\<bar>)"

section \<open>Helper processes\<close>

text \<open>
  What a spawned helper does: it closes with an exit code (\<open>null\<close> when a signal
  killed it), its standard output and its standard error, or it cannot be started and
  the \<open>error\<close> event carries a message. The services receive the helper as a function
  from the spawned command line to that outcome, and every call is recorded.
\<close>

datatype childResult = Closed "int option" string string | Failed string

type_synonym spawnCall = "string \<times> string list"

datatype notice = Warning string | Information string

datatype 'a promise = Resolved 'a | Rejected string | Pending

record 'a run =
  result :: 'a
  spawned :: "spawnCall list"
  shown :: "notice list"

definition showCode :: "int option \<Rightarrow> string" where
  "showCode code = (case code of None \<Rightarrow> ''null'' | Some c \<Rightarrow> showInt c)"

text \<open>\<open>s || d\<close> on strings.\<close>

definition orStr :: "string \<Rightarrow> string \<Rightarrow> string" where
  "orStr s d = (if s = [] then d else s)"

subsection \<open>Sampling on Linux\<close>

definition delimiter :: string where
  "delimiter = ''|||''"

definition linuxFormat :: string where
  "linuxFormat =
     ''{{title}}'' @ delimiter @ ''{{mpris:artUrl}}'' @ delimiter @ ''{{artist}}'' @ delimiter @
     ''{{album}}'' @ delimiter @ ''{{duration(position)}}'' @ delimiter @
     ''{{duration(mpris:length)}}'' @ delimiter @ ''{{status}}'' @ delimiter @ ''{{playerName}}''"

text \<open>The \<open>close\<close> handler of the Linux \<open>getCurrentTrack\<close>.\<close>

definition linuxOnClose :: "int option \<Rightarrow> string \<Rightarrow> TrackInfo option" where
  "linuxOnClose code output =
     (if code = Some 0 \<and> trim output \<noteq> [] then
        let cleanedOutput = trim output;
            parts = split cleanedOutput delimiter
        in if 8 \<le> length parts then
             Some \<lparr> title = JStr (orStr (parts ! 0) ''Unknown Title''),
                    artUrl = JStr (orStr (parts ! 1) []),
                    artist = JStr (orStr (parts ! 2) ''Unknown Artist''),
                    album = JStr (orStr (parts ! 3) ''Unknown Album''),
                    duration = Some (parseDuration (parts ! 5)),
                    position = Some (parseDuration (parts ! 4)),
                    status = linuxStatus (parts ! 6),
                    player = Some (orStr (parts ! 7) ''Unknown Player'') \<rparr>
           else None
      else None)"

definition linux_getCurrentTrack ::
  "bool \<Rightarrow> (spawnCall \<Rightarrow> childResult) \<Rightarrow> (TrackInfo option) run" where
  "linux_getCurrentTrack isPlayerctlAvailable spawn =
     (if \<not> isPlayerctlAvailable then \<lparr> result = None, spawned = [], shown = [] \<rparr>
      else
        let call = (''playerctl'', [''metadata'', ''--format'', linuxFormat])
        in \<lparr> result = (case spawn call of
                          Closed code output _ \<Rightarrow> linuxOnClose code output
                        | Failed _ \<Rightarrow> None),
             spawned = [call], shown = [] \<rparr>)"

subsection \<open>Sampling on Windows\<close>

text \<open>
  \<open>data.key\<close> for the keys the service reads, on a value that is not \<open>null\<close>: an own
  property of an object, \<open>undefined\<close> (\<open>None\<close>) on anything else.
\<close>

fun getProp :: "json \<Rightarrow> string \<Rightarrow> json option" where
  "getProp (JObj kvs) key = map_of kvs key"
| "getProp _ key = None"

text \<open>\<open>v || d\<close> on a property that may be \<open>undefined\<close>.\<close>

definition orElse :: "json option \<Rightarrow> json \<Rightarrow> json" where
  "orElse v d = (case v of None \<Rightarrow> d | Some j \<Rightarrow> if truthy j then j else d)"

text \<open>
  The two string functions as they are called on an untyped value: a truthy value
  that is not a string has no \<open>split\<close> and no \<open>toLowerCase\<close>, and the call throws a
  \<open>TypeError\<close> (\<open>None\<close>).
\<close>

definition callParseTimeToSeconds :: "json \<Rightarrow> jsnum option" where
  "callParseTimeToSeconds v =
     (if \<not> truthy v then Some (Num 0)
      else case v of JStr s \<Rightarrow> Some (parseTimeToSeconds s) | _ \<Rightarrow> None)"

definition callMapPlaybackStatus :: "json option \<Rightarrow> string option" where
  "callMapPlaybackStatus v =
     (case v of
        None \<Rightarrow> Some ''stopped''
      | Some j \<Rightarrow>
          if \<not> truthy j then Some ''stopped''
          else case j of JStr s \<Rightarrow> Some (mapPlaybackStatus s) | _ \<Rightarrow> None)"

text \<open>
  The object literal inside the \<open>try\<close> block; \<open>None\<close> when it throws (reading a
  property of \<open>null\<close>, or one of the two calls above).
\<close>

definition windowsTrack :: "json \<Rightarrow> TrackInfo option" where
  "windowsTrack data =
     (if data = JNull then None
      else
        case callParseTimeToSeconds (orElse (getProp data ''currentTime'') (JStr ''00:00'')) of
          None \<Rightarrow> None
        | Some pos \<Rightarrow>
           (case callParseTimeToSeconds (orElse (getProp data ''duration'') (JStr ''00:00'')) of
              None \<Rightarrow> None
            | Some dur \<Rightarrow>
               (case callMapPlaybackStatus (getProp data ''status'') of
                  None \<Rightarrow> None
                | Some st \<Rightarrow>
                    Some \<lparr> title = orElse (getProp data ''title'') (JStr ''Unknown Title''),
                           artUrl = orElse (getProp data ''artworkUri'') (JStr []),
                           artist = orElse (getProp data ''artist'') (JStr ''Unknown Artist''),
                           album = orElse (getProp data ''album'') (JStr ''Unknown Album''),
                           duration = Some dur,
                           position = Some pos,
                           status = st,
                           player = Some ''Windows Media Session'' \<rparr>)))"

text \<open>
  The \<open>close\<close> handler of the Windows \<open>getCurrentTrack\<close>; \<open>jsonParse\<close> is
  \<open>JSON.parse\<close>, \<open>None\<close> when it throws a \<open>SyntaxError\<close>.
\<close>

definition windowsOnClose ::
  "(string \<Rightarrow> json option) \<Rightarrow> int option \<Rightarrow> string \<Rightarrow> TrackInfo option" where
  "windowsOnClose jsonParse code output =
     (if code = Some 0 \<and> trim output \<noteq> [] then
        case jsonParse (trim output) of None \<Rightarrow> None | Some data \<Rightarrow> windowsTrack data
      else None)"

definition windows_getCurrentTrack ::
  "bool \<Rightarrow> string \<Rightarrow> (string \<Rightarrow> json option) \<Rightarrow> (spawnCall \<Rightarrow> childResult)
     \<Rightarrow> (TrackInfo option) run" where
  "windows_getCurrentTrack isWinKlangAvailable winKlangPath jsonParse spawn =
     (if \<not> isWinKlangAvailable then \<lparr> result = None, spawned = [], shown = [] \<rparr>
      else
        let call = (winKlangPath, [''--json''])
        in \<lparr> result = (case spawn call of
                          Closed code output _ \<Rightarrow> windowsOnClose jsonParse code output
                        | Failed _ \<Rightarrow> None),
             spawned = [call], shown = [] \<rparr>)"

text \<open>\<open>x || null\<close> on an optional number.\<close>

definition orNull :: "jsnum option \<Rightarrow> jsnum option" where
  "orNull x = (case x of Some (Num n) \<Rightarrow> if n = 0 then None else Some (Num n) | _ \<Rightarrow> None)"

definition windows_getPosition ::
  "bool \<Rightarrow> string \<Rightarrow> (string \<Rightarrow> json option) \<Rightarrow> (spawnCall \<Rightarrow> childResult)
     \<Rightarrow> (jsnum option) run" where
  "windows_getPosition isWinKlangAvailable winKlangPath jsonParse spawn =
     (if \<not> isWinKlangAvailable then \<lparr> result = None, spawned = [], shown = [] \<rparr>
      else
        let r = windows_getCurrentTrack isWinKlangAvailable winKlangPath jsonParse spawn
        in \<lparr> result = (case result r of None \<Rightarrow> None | Some track \<Rightarrow> orNull (position track)),
             spawned = spawned r, shown = shown r \<rparr>)"

section \<open>Control commands\<close>

text \<open>
  The three Linux commands differ in the argument only. They listen to \<open>close\<close>
  alone, so a helper that cannot be started leaves the promise unsettled.
\<close>

definition linuxControl ::
  "string \<Rightarrow> bool \<Rightarrow> (spawnCall \<Rightarrow> childResult) \<Rightarrow> (unit promise) run" where
  "linuxControl command isPlayerctlAvailable spawn =
     (if \<not> isPlayerctlAvailable then
        \<lparr> result = Resolved (), spawned = [],
          shown = [Warning
            ''playerctl is not available. Please install it to control music playback.''] \<rparr>
      else
        let call = (''playerctl'', [command])
        in \<lparr> result = (case spawn call of
                          Closed code _ _ \<Rightarrow>
                            if code = Some 0 then Resolved ()
                            else Rejected (''playerctl '' @ command @ '' failed with code '' @
                                           showCode code)
                        | Failed _ \<Rightarrow> Pending),
             spawned = [call], shown = [] \<rparr>)"

definition linux_playPause :: "bool \<Rightarrow> (spawnCall \<Rightarrow> childResult) \<Rightarrow> (unit promise) run" where
  "linux_playPause = linuxControl ''play-pause''"

definition linux_next :: "bool \<Rightarrow> (spawnCall \<Rightarrow> childResult) \<Rightarrow> (unit promise) run" where
  "linux_next = linuxControl ''next''"

definition linux_previous :: "bool \<Rightarrow> (spawnCall \<Rightarrow> childResult) \<Rightarrow> (unit promise) run" where
  "linux_previous = linuxControl ''previous''"

definition winKlangWarning :: notice where
  "winKlangWarning = Warning
     ''WinKlang is not available. Please ensure WinKlang.exe is present to control music playback.''"

definition windows_playPause ::
  "bool \<Rightarrow> string \<Rightarrow> (spawnCall \<Rightarrow> childResult) \<Rightarrow> (unit promise) run" where
  "windows_playPause isWinKlangAvailable winKlangPath spawn =
     (if \<not> isWinKlangAvailable then
        \<lparr> result = Resolved (), spawned = [], shown = [winKlangWarning] \<rparr>
      else
        let call = (winKlangPath, [''--play-pause''])
        in \<lparr> result = (case spawn call of
                          Closed code _ _ \<Rightarrow>
                            if code = Some 0 then Resolved ()
                            else Rejected (''WinKlang play-pause failed with code '' @ showCode code)
                        | Failed message \<Rightarrow> Rejected (''WinKlang play-pause error: '' @ message)),
             spawned = [call], shown = [] \<rparr>)"

text \<open>
  \<open>next\<close> and \<open>previous\<close> of the Windows service collect the standard error and
  look for \<open>not available\<close> in it; they differ in the flag and in the words of the
  messages.
\<close>

definition windowsSkip ::
  "string \<Rightarrow> string \<Rightarrow> string \<Rightarrow> bool \<Rightarrow> string \<Rightarrow> (spawnCall \<Rightarrow> childResult)
     \<Rightarrow> (unit promise) run" where
  "windowsSkip flag name Name isWinKlangAvailable winKlangPath spawn =
     (if \<not> isWinKlangAvailable then
        \<lparr> result = Resolved (), spawned = [], shown = [winKlangWarning] \<rparr>
      else
        let call = (winKlangPath, [flag])
        in case spawn call of
             Closed code _ errorOutput \<Rightarrow>
               if code = Some 0 then \<lparr> result = Resolved (), spawned = [call], shown = [] \<rparr>
               else if includesStr errorOutput ''not available'' then
                 \<lparr> result = Resolved (), spawned = [call],
                   shown = [Information
                     (Name @ '' track control is not available for the current media player.'')] \<rparr>
               else
                 \<lparr> result = Rejected (''WinKlang '' @ name @ '' failed with code '' @
                                      showCode code @ '': '' @ errorOutput),
                   spawned = [call], shown = [] \<rparr>
           | Failed message \<Rightarrow>
               \<lparr> result = Rejected (''WinKlang '' @ name @ '' error: '' @ message),
                 spawned = [call], shown = [] \<rparr>)"

definition windows_next ::
  "bool \<Rightarrow> string \<Rightarrow> (spawnCall \<Rightarrow> childResult) \<Rightarrow> (unit promise) run" where
  "windows_next = windowsSkip ''--next'' ''next'' ''Next''"

definition windows_previous ::
  "bool \<Rightarrow> string \<Rightarrow> (spawnCall \<Rightarrow> childResult) \<Rightarrow> (unit promise) run" where
  "windows_previous = windowsSkip ''--prev'' ''previous'' ''Previous''"

section \<open>Artwork\<close>

text \<open>\<open>Buffer.from(s).toString('base64')\<close>: three bytes give four characters.\<close>

definition base64Alphabet :: string where
  "base64Alphabet = ''ABCDEFGHIJKLMNOPQRSTUVWXYZabcdefghijklmnopqrstuvwxyz0123456789+/''"

definition sextet :: "nat \<Rightarrow> char" where
  "sextet n = base64Alphabet ! n"

fun encodeBytes :: "nat list \<Rightarrow> string" where
  "encodeBytes [] = []"
| "encodeBytes [a] = [sextet (a div 4), sextet ((a mod 4) * 16), CHR ''='', CHR ''='']"
| "encodeBytes [a, b] =
     [sextet (a div 4), sextet ((a mod 4) * 16 + b div 16), sextet ((b mod 16) * 4), CHR ''='']"
| "encodeBytes (a # b # c # rest) =
     [sextet (a div 4), sextet ((a mod 4) * 16 + b div 16),
      sextet ((b mod 16) * 4 + c div 64), sextet (c mod 64)] @ encodeBytes rest"

definition base64 :: "string \<Rightarrow> string" where
  "base64 s = encodeBytes (map of_char s)"

text \<open>The module whose \<open>get\<close> a resolver calls.\<close>

datatype protocol = Http | Https

text \<open>
  The other library functions the resolvers call are parameters: \<open>pathJoin\<close>,
  \<open>extname\<close> and \<open>basename\<close> are those of \<open>path\<close>, \<open>uriFile p\<close> is
  \<open>vscode.Uri.file(p).toString()\<close> and \<open>uriResource p\<close> the same with the scheme
  \<open>vscode-resource\<close>. \<open>getThrows m url\<close> tells whether \<open>get\<close> of the module \<open>m\<close>
  throws on the locator before it sends anything (a locator that is not a URL, or a
  URL of another protocol than the module's), and with which message.
\<close>

record nodeLib =
  getThrows :: "protocol \<Rightarrow> string \<Rightarrow> string option"
  pathJoin :: "string \<Rightarrow> string \<Rightarrow> string"
  extname :: "string \<Rightarrow> string"
  basename :: "string \<Rightarrow> string"
  uriFile :: "string \<Rightarrow> string"
  uriResource :: "string \<Rightarrow> string"

text \<open>
  What the resolvers read and write: the in-memory cache, the files on disk (each
  whole or partly written), the directories, and the log of transfers made (a file
  copied, or a GET request issued).
\<close>

datatype filestate = Whole | Partial

datatype transfer = Copied string string | Fetched string

record store =
  cache :: "string \<rightharpoonup> string"
  files :: "string \<rightharpoonup> filestate"
  dirs :: "string set"
  transfers :: "transfer list"

text \<open>
  What the network does with one GET request: the request fails before any response
  (the \<open>error\<close> event of the request), or a response arrives with a status code and a
  body. The resolvers pipe the body of a 200 response into a write stream and wait for
  its \<open>finish\<close> event. The body is written to the end; or it is cut off on the way,
  and then that event never comes and nothing removes the file that the stream has
  opened; or the stream cannot open the file at all and emits \<open>error\<close> with a message.
\<close>

datatype body = Full | Cut | Unopened string

datatype response = RequestError string | Response nat body

definition existsSync :: "store \<Rightarrow> string \<Rightarrow> bool" where
  "existsSync w p \<longleftrightarrow> files w p \<noteq> None \<or> p \<in> dirs w"

text \<open>\<open>if (!fs.existsSync(dir)) fs.mkdirSync(dir, {recursive: true})\<close>.\<close>

definition ensureDir :: "store \<Rightarrow> string \<Rightarrow> store" where
  "ensureDir w dir = (if existsSync w dir then w else w\<lparr>dirs := insert dir (dirs w)\<rparr>)"

text \<open>\<open>fs.copyFileSync\<close> throws (\<open>None\<close>) unless the source is a file.\<close>

definition copyFileSync :: "store \<Rightarrow> string \<Rightarrow> string \<Rightarrow> store option" where
  "copyFileSync w src dst =
     (case files w src of
        None \<Rightarrow> None
      | Some f \<Rightarrow> Some (w\<lparr>files := (files w)(dst \<mapsto> f),
                           transfers := transfers w @ [Copied src dst]\<rparr>))"

text \<open>\<open>s.replace(pat, rep)\<close> with a string pattern replaces the first occurrence.\<close>

fun replaceFirst :: "string \<Rightarrow> string \<Rightarrow> string \<Rightarrow> string" where
  "replaceFirst [] pat rep = (if pat = [] then rep else [])"
| "replaceFirst (c # cs) pat rep =
     (if prefix pat (c # cs) then rep @ drop (length pat) (c # cs)
      else c # replaceFirst cs pat rep)"

text \<open>\<open>s.replace(/[/+=]/g, '_')\<close>.\<close>

definition underscored :: "string \<Rightarrow> string" where
  "underscored s =
     map (\<lambda>c. if c = CHR ''/'' \<or> c = CHR ''+'' \<or> c = CHR ''='' then CHR ''_'' else c) s"

subsection \<open>\<open>ArtworkUtil\<close>\<close>

definition getArtworkDirectory :: "nodeLib \<Rightarrow> string \<Rightarrow> store \<Rightarrow> string \<times> store" where
  "getArtworkDirectory lib storagePath w =
     (let artworkDir = pathJoin lib storagePath ''artwork''
      in (artworkDir, ensureDir w artworkDir))"

definition handleFileUrl ::
  "nodeLib \<Rightarrow> string \<Rightarrow> store \<Rightarrow> string \<Rightarrow> (string option) promise \<times> store" where
  "handleFileUrl lib storagePath w url =
     (let sourcePath = replaceFirst url ''file://'' []
      in if \<not> existsSync w sourcePath then (Resolved None, w)
         else
           let (artworkDir, w1) = getArtworkDirectory lib storagePath w;
               pathHash = underscored (base64 sourcePath);
               extension = orStr (extname lib sourcePath) ''.jpg'';
               filename = ''artwork_'' @ pathHash @ extension;
               localPath = pathJoin lib artworkDir filename
           in case (if \<not> existsSync w1 localPath then copyFileSync w1 sourcePath localPath
                    else Some w1) of
                None \<Rightarrow> (Rejected ''copyFileSync'', w1)
              | Some w2 \<Rightarrow>
                  let vscodeUri = uriFile lib localPath
                  in (Resolved (Some vscodeUri), w2\<lparr>cache := (cache w2)(url \<mapsto> vscodeUri)\<rparr>))"

text \<open>
  In \<open>handleHttpUrl\<close> the promise is resolved by the \<open>finish\<close> event of the file
  stream, by a status other than 200 and by the \<open>error\<close> event of the request. The
  file stream is opened on the final path as soon as a 200 response arrives, and no one
  listens to its \<open>error\<close> event. \<open>get\<close> is called inside the executor of the promise,
  so when it throws the promise is rejected and no request is sent.
\<close>

definition handleHttpUrl ::
  "nodeLib \<Rightarrow> string \<Rightarrow> response \<Rightarrow> store \<Rightarrow> string \<Rightarrow> (string option) promise \<times> store" where
  "handleHttpUrl lib storagePath net w url =
     (let (artworkDir, w1) = getArtworkDirectory lib storagePath w;
          urlHash = underscored (base64 url);
          filename = ''artwork_'' @ urlHash @ ''.jpg'';
          localPath = pathJoin lib artworkDir filename
      in if existsSync w1 localPath then
           let vscodeUri = uriFile lib localPath
           in (Resolved (Some vscodeUri), w1\<lparr>cache := (cache w1)(url \<mapsto> vscodeUri)\<rparr>)
         else
           let protocol = (if startsWith url ''https://'' then Https else Http)
           in case getThrows lib protocol url of
                Some message \<Rightarrow> (Rejected message, w1)
              | None \<Rightarrow>
                  let w2 = w1\<lparr>transfers := transfers w1 @ [Fetched url]\<rparr>
                  in case net of
                       RequestError _ \<Rightarrow> (Resolved None, w2)
                     | Response statusCode b \<Rightarrow>
                         if statusCode = 200 then
                           (case b of
                              Full \<Rightarrow>
                                let w3 = w2\<lparr>files := (files w2)(localPath \<mapsto> Whole)\<rparr>;
                                    vscodeUri = uriFile lib localPath
                                in (Resolved (Some vscodeUri),
                                    w3\<lparr>cache := (cache w3)(url \<mapsto> vscodeUri)\<rparr>)
                            | Cut \<Rightarrow>
                                (Pending, w2\<lparr>files := (files w2)(localPath \<mapsto> Partial)\<rparr>)
                            | Unopened _ \<Rightarrow> (Pending, w2))
                         else (Resolved None, w2))"

text \<open>
  \<open>ArtworkUtil.downloadArtwork\<close>; \<open>context\<close> is the storage path of the extension
  context, \<open>None\<close> before \<open>initialize\<close>. It returns the promise of \<open>handleFileUrl\<close>
  or \<open>handleHttpUrl\<close> without awaiting it, so its own \<open>catch\<close> does not see their
  rejection: the rejection is the result.
\<close>

definition util_downloadArtwork ::
  "nodeLib \<Rightarrow> string option \<Rightarrow> response \<Rightarrow> store \<Rightarrow> string
     \<Rightarrow> (string option) promise \<times> store" where
  "util_downloadArtwork lib context net w url =
     (case context of
        None \<Rightarrow> (Resolved None, w)
      | Some storagePath \<Rightarrow>
          if url = [] then (Resolved None, w)
          else if cache w url \<noteq> None then (Resolved (cache w url), w)
          else if startsWith url ''file://'' then handleFileUrl lib storagePath w url
          else if startsWith url ''http://'' \<or> startsWith url ''https://''
            then handleHttpUrl lib storagePath net w url
          else (Resolved None, w))"

subsection \<open>The Linux service\<close>

text \<open>
  \<open>downloadFile\<close> is resolved by the \<open>finish\<close> event of the file stream and rejected
  by a status other than 200, by the \<open>error\<close> event of the request and by the \<open>error\<close>
  event of the file stream. \<open>get\<close> is called inside the executor of the promise, so
  when it throws the promise is rejected and no request is sent.
\<close>

definition downloadFile ::
  "nodeLib \<Rightarrow> response \<Rightarrow> store \<Rightarrow> string \<Rightarrow> string \<Rightarrow> unit promise \<times> store" where
  "downloadFile lib net w url filePath =
     (let protocol = (if startsWith url ''https'' then Https else Http)
      in case getThrows lib protocol url of
           Some message \<Rightarrow> (Rejected message, w)
         | None \<Rightarrow>
             let w1 = w\<lparr>transfers := transfers w @ [Fetched url]\<rparr>
             in case net of
                  RequestError message \<Rightarrow> (Rejected message, w1)
                | Response statusCode b \<Rightarrow>
                    if statusCode = 200 then
                      (case b of
                         Full \<Rightarrow>
                           (Resolved (), w1\<lparr>files := (files w1)(filePath \<mapsto> Whole)\<rparr>)
                       | Cut \<Rightarrow>
                           (Pending, w1\<lparr>files := (files w1)(filePath \<mapsto> Partial)\<rparr>)
                       | Unopened message \<Rightarrow> (Rejected message, w1))
                    else (Rejected (''HTTP '' @ showNat statusCode), w1))"

text \<open>
  \<open>downloadArtwork\<close> of the Linux service; \<open>now\<close> is \<open>Date.now()\<close>. Whatever is
  thrown or rejected inside the \<open>try\<close> block gives \<open>null\<close>.
\<close>

definition linux_downloadArtwork ::
  "nodeLib \<Rightarrow> string \<Rightarrow> nat \<Rightarrow> response \<Rightarrow> store \<Rightarrow> string
     \<Rightarrow> (string option) promise \<times> store" where
  "linux_downloadArtwork lib storagePath now net w artworkUrl =
     (if artworkUrl = [] then (Resolved None, w)
      else if cache w artworkUrl \<noteq> None then (Resolved (cache w artworkUrl), w)
      else if startsWith artworkUrl ''file://'' then
        let filePath = replaceFirst artworkUrl ''file://'' []
        in if existsSync w filePath then
             let uploadsDir = pathJoin lib storagePath ''uploads'';
                 w1 = ensureDir w uploadsDir;
                 fileName = basename lib filePath;
                 targetPath = pathJoin lib uploadsDir fileName
             in case copyFileSync w1 filePath targetPath of
                  None \<Rightarrow> (Resolved None, w1)
                | Some w2 \<Rightarrow>
                    let webviewUri = uriResource lib targetPath
                    in (Resolved (Some webviewUri),
                        w2\<lparr>cache := (cache w2)(artworkUrl \<mapsto> webviewUri)\<rparr>)
           else (Resolved None, w)
      else if startsWith artworkUrl ''http'' then
        let uploadsDir = pathJoin lib storagePath ''uploads'';
            w1 = ensureDir w uploadsDir;
            fileName = ''artwork_'' @ showNat now @ ''.jpg'';
            filePath = pathJoin lib uploadsDir fileName
        in case downloadFile lib net w1 artworkUrl filePath of
             (Resolved _, w2) \<Rightarrow>
               let webviewUri = uriResource lib filePath
               in (Resolved (Some webviewUri),
                   w2\<lparr>cache := (cache w2)(artworkUrl \<mapsto> webviewUri)\<rparr>)
           | (Rejected _, w2) \<Rightarrow> (Resolved None, w2)
           | (Pending, w2) \<Rightarrow> (Pending, w2)
      else (Resolved None, w))"

text \<open>
  A sample library for evaluating the resolvers on concrete inputs. Its \<open>get\<close> takes
  a locator that starts with the scheme of the module and goes on after it.
\<close>

definition sampleLib :: nodeLib where
  "sampleLib =
     \<lparr> getThrows = (\<lambda>m u.
         let scheme = (case m of Http \<Rightarrow> ''http://'' | Https \<Rightarrow> ''https://'')
         in if prefix scheme u \<and> length scheme < length u then None else Some ''Invalid URL''),
       pathJoin = (\<lambda>a b. a @ ''/'' @ b),
       extname = (\<lambda>p. if CHR ''.'' \<in> set p then CHR ''.'' # rev (takeWhile (\<lambda>c. c \<noteq> CHR ''.'') (rev p)) else []),
       basename = (\<lambda>p. rev (takeWhile (\<lambda>c. c \<noteq> CHR ''/'') (rev p))),
       uriFile = (\<lambda>p. ''file://'' @ p),
       uriResource = (\<lambda>p. ''vscode-resource://'' @ p) \<rparr>"

definition emptyStore :: store where
  "emptyStore = \<lparr> cache = Map.empty, files = Map.empty, dirs = {}, transfers = [] \<rparr>"

section \<open>Properties named by the claims\<close>

text \<open>The command line of the Linux metadata query.\<close>

definition linuxCall :: spawnCall where
  "linuxCall = (''playerctl'', [''metadata'', ''--format'', linuxFormat])"

text \<open>
  A track with no field left empty: a truthy title, artist and album, a status and a
  player name that are not empty, and a position and a duration.
\<close>

definition fullyResolved :: "TrackInfo \<Rightarrow> bool" where
  "fullyResolved t \<longleftrightarrow>
     truthy (title t) \<and> truthy (artist t) \<and> truthy (album t) \<and> status t \<noteq> [] \<and>
     (case player t of None \<Rightarrow> False | Some p \<Rightarrow> p \<noteq> []) \<and>
     position t \<noteq> None \<and> duration t \<noteq> None"

text \<open>A property that is present and truthy and is not a string.\<close>

definition notAString :: "json option \<Rightarrow> bool" where
  "notAString v =
     (case v of
        None \<Rightarrow> False
      | Some j \<Rightarrow> truthy j \<and> (case j of JStr _ \<Rightarrow> False | _ \<Rightarrow> True))"

text \<open>
  Output that the Windows service cannot parse into a track: \<open>JSON.parse\<close> throws, or
  the value is \<open>null\<close>, or \<open>currentTime\<close>, \<open>duration\<close> or \<open>status\<close> is not a string.
  The service reports each of these as \<open>Failed to parse WinKlang JSON output\<close>.
\<close>

definition windowsUnparsable :: "(string \<Rightarrow> json option) \<Rightarrow> string \<Rightarrow> bool" where
  "windowsUnparsable jsonParse text =
     (case jsonParse text of
        None \<Rightarrow> True
      | Some data \<Rightarrow>
          data = JNull \<or> notAString (getProp data ''currentTime'') \<or>
          notAString (getProp data ''duration'') \<or> notAString (getProp data ''status''))"

text \<open>A download that fails: no response at all, or a status other than 200.\<close>

definition refused :: "response \<Rightarrow> bool" where
  "refused net =
     (case net of RequestError _ \<Rightarrow> True | Response statusCode _ \<Rightarrow> statusCode \<noteq> 200)"

text \<open>The module each resolver picks for a locator.\<close>

definition utilProtocol :: "string \<Rightarrow> protocol" where
  "utilProtocol url = (if startsWith url ''https://'' then Https else Http)"

definition linuxProtocol :: "string \<Rightarrow> protocol" where
  "linuxProtocol url = (if startsWith url ''https'' then Https else Http)"

text \<open>The file names the two resolvers compute for an HTTP locator.\<close>

definition httpLocalPath :: "nodeLib \<Rightarrow> string \<Rightarrow> string \<Rightarrow> string" where
  "httpLocalPath lib storagePath url =
     pathJoin lib (pathJoin lib storagePath ''artwork'')
       (''artwork_'' @ underscored (base64 url) @ ''.jpg'')"

definition linuxHttpPath :: "nodeLib \<Rightarrow> string \<Rightarrow> nat \<Rightarrow> string" where
  "linuxHttpPath lib storagePath now =
     pathJoin lib (pathJoin lib storagePath ''uploads'') (''artwork_'' @ showNat now @ ''.jpg'')"

section \<open>Sample inputs\<close>

definition songTrack :: TrackInfo where
  "songTrack =
     \<lparr> title = JStr ''Song'', artUrl = JStr ''http://h/1.jpg'', artist = JStr ''Band'',
       album = JStr ''One'', duration = Some (Num 200), position = Some (Num 10),
       status = ''playing'', player = Some ''vlc'' \<rparr>"

definition zeroTrack :: TrackInfo where
  "zeroTrack =
     \<lparr> title = JStr ''Unknown Title'', artUrl = JStr [], artist = JStr ''Unknown Artist'',
       album = JStr ''Unknown Album'', duration = Some (Num 0), position = Some (Num 0),
       status = ''stopped'', player = Some ''Windows Media Session'' \<rparr>"

text \<open>A line of nine fields, and helpers that print it or a line of two fields.\<close>

definition nineFields :: string where
  "nineFields =
     ''Song|||http://h/1.jpg|||Band|||One|||0:10|||3:20|||Playing|||vlc|||extra\<newline>''"

definition nineHelper :: "spawnCall \<Rightarrow> childResult" where
  "nineHelper call = Closed (Some 0) nineFields []"

definition shortHelper :: "spawnCall \<Rightarrow> childResult" where
  "shortHelper call = Closed (Some 0) ''Song|||http://h/1.jpg'' []"

text \<open>\<open>JSON.parse\<close> on the two texts the samples use.\<close>

definition sampleParse :: "string \<Rightarrow> json option" where
  "sampleParse text =
     (if text = ''{\"currentTime\":\"00:00\"}'' then Some (JObj [(''currentTime'', JStr ''00:00'')])
      else if text = ''null'' then Some JNull
      else None)"

definition zeroHelper :: "spawnCall \<Rightarrow> childResult" where
  "zeroHelper call = Closed (Some 0) ''{\"currentTime\":\"00:00\"}'' []"

definition nullHelper :: "spawnCall \<Rightarrow> childResult" where
  "nullHelper call = Closed (Some 0) ''null'' []"

text \<open>Helpers that fail a control command, with and without the marker.\<close>

definition notAvailableHelper :: "spawnCall \<Rightarrow> childResult" where
  "notAvailableHelper call = Closed (Some 1) [] ''Error: control not available''"

definition brokenHelper :: "spawnCall \<Rightarrow> childResult" where
  "brokenHelper call = Closed (Some 2) [] ''boom''"

text \<open>
  Resolving one HTTP locator twice from an empty store: a 404 and then a success; a
  body cut off on the way and then a success; a success and then a network that is
  down.
\<close>

definition sampleUrl :: string where
  "sampleUrl = ''http://h/a.jpg''"

definition notFoundFirst :: "(string option) promise \<times> store" where
  "notFoundFirst =
     util_downloadArtwork sampleLib (Some ''/store'') (Response 404 Full) emptyStore sampleUrl"

definition notFoundThenOk :: "(string option) promise \<times> store" where
  "notFoundThenOk =
     util_downloadArtwork sampleLib (Some ''/store'') (Response 200 Full) (snd notFoundFirst)
       sampleUrl"

definition cutFirst :: "(string option) promise \<times> store" where
  "cutFirst =
     util_downloadArtwork sampleLib (Some ''/store'') (Response 200 Cut) emptyStore sampleUrl"

definition cutSecond :: "(string option) promise \<times> store" where
  "cutSecond =
     util_downloadArtwork sampleLib (Some ''/store'') (Response 200 Full) (snd cutFirst) sampleUrl"

definition resolvedOnce :: "(string option) promise \<times> store" where
  "resolvedOnce =
     util_downloadArtwork sampleLib (Some ''/store'') (Response 200 Full) emptyStore sampleUrl"

definition resolvedTwice :: "(string option) promise \<times> store" where
  "resolvedTwice =
     util_downloadArtwork sampleLib (Some ''/store'') (RequestError ''offline'')
       (snd resolvedOnce) sampleUrl"

definition linuxOnce :: "(string option) promise \<times> store" where
  "linuxOnce =
     linux_downloadArtwork sampleLib ''/store'' 1700 (Response 200 Full) emptyStore sampleUrl"

definition linuxTwice :: "(string option) promise \<times> store" where
  "linuxTwice =
     linux_downloadArtwork sampleLib ''/store'' 1800 (RequestError ''offline'') (snd linuxOnce)
       sampleUrl"

definition linuxNotFoundFirst :: "(string option) promise \<times> store" where
  "linuxNotFoundFirst =
     linux_downloadArtwork sampleLib ''/store'' 1700 (Response 404 Full) emptyStore sampleUrl"

definition linuxNotFoundThenOk :: "(string option) promise \<times> store" where
  "linuxNotFoundThenOk =
     linux_downloadArtwork sampleLib ''/store'' 1800 (Response 200 Full) (snd linuxNotFoundFirst)
       sampleUrl"

section \<open>Strings: facts about the primitives\<close>

lemma includesStr_sublist: "includesStr s sub \<longleftrightarrow> sublist sub s"
  by (induction s) (simp_all add: sublist_Cons_right)

lemma length_splitAcc: "length (splitAcc d [] acc s) = Suc (count_list s d)"
  by (induction s arbitrary: acc) simp_all

lemma length_split_colon: "length (split s '':'') = Suc (count_list s (CHR '':''))"
  by (simp add: split_def length_splitAcc)

lemma linuxStatus_nonempty: "linuxStatus s \<noteq> []"
  by (simp add: linuxStatus_def toLowerCase_def Let_def)

lemma mapPlaybackStatus_nonempty: "mapPlaybackStatus s \<noteq> []"
  by (simp add: mapPlaybackStatus_def Let_def)

lemma orStr_nonempty: "d \<noteq> [] \<Longrightarrow> orStr s d \<noteq> []"
  by (simp add: orStr_def)

section \<open>The change predicate\<close>

text \<open>
  Claim C1. \<open>hasTrackChanged\<close> is false when both tracks are absent and true when
  exactly one is. For two present tracks, with titles \<open>ta\<close> and \<open>tb\<close>, artists \<open>aa\<close>
  and \<open>ab\<close> and positions \<open>pa\<close> and \<open>pb\<close>, it is true exactly when the titles differ,
  or the artists differ, or the statuses differ, or the positions are more than 2
  seconds apart. In particular two tracks with the same title, artist and status and
  positions at most 2 apart are unchanged whatever their albums and artwork locators
  are. A position that is missing, \<open>NaN\<close> or 0 is read as 0 (\<open>|| 0\<close>).
\<close>

theorem hasTrackChanged_predicate:
  "\<not> hasTrackChanged None None \<and>
   hasTrackChanged None (Some t) \<and>
   hasTrackChanged (Some t) None \<and>
   (title a = JStr ta \<and> title b = JStr tb \<and> artist a = JStr aa \<and> artist b = JStr ab \<and>
    position a = Some (Num pa) \<and> position b = Some (Num pb) \<longrightarrow>
      (hasTrackChanged (Some a) (Some b) \<longleftrightarrow>
         ta \<noteq> tb \<or> aa \<noteq> ab \<or> status a \<noteq> status b \<or> 2 < \<bar>pa - pb\<bar>) \<and>
      (ta = tb \<and> aa = ab \<and> status a = status b \<and> \<bar>pa - pb\<bar> \<le> 2 \<longrightarrow>
         \<not> hasTrackChanged (Some (a\<lparr>album := x, artUrl := y\<rparr>))
                             (Some (b\<lparr>album := x', artUrl := y'\<rparr>)))) \<and>
   (title a = JStr ta \<and> title b = JStr tb \<and> artist a = JStr aa \<and> artist b = JStr ab \<longrightarrow>
      (hasTrackChanged (Some a) (Some b) \<longleftrightarrow>
         ta \<noteq> tb \<or> aa \<noteq> ab \<or> status a \<noteq> status b \<or>
         2 < \<bar>positionOrZero a - positionOrZero b\<bar>)) \<and>
   (position a = Some (Num pa) \<longrightarrow> positionOrZero a = pa) \<and>
   (position a = None \<or> position a = Some NaN \<longrightarrow> positionOrZero a = 0)"
  by (auto simp: positionOrZero_def)

text \<open>
  Two samples of one track, 2 seconds apart and with another album and artwork, are
  unchanged. Another title, another artist, another status or a position 3 seconds
  away each make a change.
\<close>

theorem hasTrackChanged_predicate_witness:
  "title songTrack = JStr ''Song'' \<and> artist songTrack = JStr ''Band'' \<and>
   status songTrack = ''playing'' \<and> position songTrack = Some (Num 10) \<and>
   \<not> hasTrackChanged (Some songTrack)
       (Some (songTrack\<lparr>position := Some (Num 12), album := JStr ''Two'',
                         artUrl := JStr ''http://h/2.jpg''\<rparr>)) \<and>
   hasTrackChanged (Some songTrack) (Some (songTrack\<lparr>title := JStr ''Other''\<rparr>)) \<and>
   hasTrackChanged (Some songTrack) (Some (songTrack\<lparr>artist := JStr ''Solo''\<rparr>)) \<and>
   hasTrackChanged (Some songTrack) (Some (songTrack\<lparr>status := ''paused''\<rparr>)) \<and>
   hasTrackChanged (Some songTrack) (Some (songTrack\<lparr>position := Some (Num 13)\<rparr>)) \<and>
   \<not> hasTrackChanged (Some (songTrack\<lparr>position := Some NaN\<rparr>))
       (Some (songTrack\<lparr>position := Some (Num 2)\<rparr>))"
  using hasTrackChanged_predicate [where a = songTrack
      and b = "songTrack\<lparr>position := Some (Num 12)\<rparr>"
      and ta = "''Song''" and tb = "''Song''" and aa = "''Band''" and ab = "''Band''"
      and pa = 10 and pb = 12
      and x = "album songTrack" and y = "artUrl songTrack"
      and x' = "JStr ''Two''" and y' = "JStr ''http://h/2.jpg''"]
    hasTrackChanged_predicate [where a = songTrack
      and b = "songTrack\<lparr>title := JStr ''Other''\<rparr>"
      and ta = "''Song''" and tb = "''Other''" and aa = "''Band''" and ab = "''Band''"
      and pa = 10 and pb = 10]
    hasTrackChanged_predicate [where a = songTrack
      and b = "songTrack\<lparr>artist := JStr ''Solo''\<rparr>"
      and ta = "''Song''" and tb = "''Song''" and aa = "''Band''" and ab = "''Solo''"
      and pa = 10 and pb = 10]
    hasTrackChanged_predicate [where a = songTrack
      and b = "songTrack\<lparr>status := ''paused''\<rparr>"
      and ta = "''Song''" and tb = "''Song''" and aa = "''Band''" and ab = "''Band''"
      and pa = 10 and pb = 10]
    hasTrackChanged_predicate [where a = songTrack
      and b = "songTrack\<lparr>position := Some (Num 13)\<rparr>"
      and ta = "''Song''" and tb = "''Song''" and aa = "''Band''" and ab = "''Band''"
      and pa = 10 and pb = 13]
    hasTrackChanged_predicate [where a = "songTrack\<lparr>position := Some NaN\<rparr>"
      and b = "songTrack\<lparr>position := Some (Num 2)\<rparr>"
      and ta = "''Song''" and tb = "''Song''" and aa = "''Band''" and ab = "''Band''"]
  by (simp add: songTrack_def positionOrZero_def)

section \<open>Status normalization\<close>

text \<open>
  Claim C2, as amended. The Windows service matches substrings of the lower-cased
  status in a fixed order: a status that contains \<open>play\<close> is \<open>playing\<close>; otherwise one
  that contains \<open>pause\<close> is \<open>paused\<close>; every other status, the empty one included, is
  \<open>stopped\<close>. The Linux service matches no substring: it lower-cases the field and
  stores it as it is, and the empty field is \<open>stopped\<close>.
\<close>

theorem status_normalization:
  "mapPlaybackStatus s =
     (if sublist ''play'' (toLowerCase s) then ''playing''
      else if sublist ''pause'' (toLowerCase s) then ''paused''
      else ''stopped'') \<and>
   linuxStatus s = (if s = [] then ''stopped'' else toLowerCase s)"
  by (simp add: mapPlaybackStatus_def linuxStatus_def includesStr_sublist toLowerCase_def Let_def)

text \<open>
  The claim as stated fails on both paths: on Windows \<open>Playback paused\<close> contains
  \<open>pause\<close> and is \<open>playing\<close>; on Linux \<open>paused (x)\<close> contains \<open>pause\<close> and stays
  \<open>paused (x)\<close>.
\<close>

theorem status_normalization_counterexample:
  "sublist ''pause'' (toLowerCase ''Playback paused'') \<and>
   mapPlaybackStatus ''Playback paused'' = ''playing'' \<and>
   sublist ''pause'' (toLowerCase ''paused (x)'') \<and>
   linuxStatus ''paused (x)'' = ''paused (x)''"
  unfolding includesStr_sublist [symmetric] by code_simp

section \<open>Time strings: results\<close>

lemma parseInt_00: "parseInt ''00'' 10 = Num 0"
  by code_simp

lemma split_00_00: "split ''00:00'' '':'' = [''00'', ''00'']"
  by code_simp

lemma split_empty: "split [] '':'' = [[]]"
  by (simp add: split_def)

text \<open>
  Claim C3, as amended. On both services the empty string and \<open>00:00\<close> parse to 0 and
  \<open>02:30\<close> parses to 150, and a string that does not hold exactly one colon parses
  to 0. On Windows a string with exactly one colon parses to 60 times its minutes plus
  its seconds, where a segment that does not start with a decimal integer counts as 0;
  so a string whose two segments are both of that kind parses to 0.
\<close>

theorem time_parsing:
  "parseDuration [] = Num 0 \<and> parseTimeToSeconds [] = Num 0 \<and>
   parseDuration ''00:00'' = Num 0 \<and> parseTimeToSeconds ''00:00'' = Num 0 \<and>
   parseDuration ''02:30'' = Num 150 \<and> parseTimeToSeconds ''02:30'' = Num 150 \<and>
   (count_list s (CHR '':'') \<noteq> 1 \<longrightarrow> parseDuration s = Num 0 \<and> parseTimeToSeconds s = Num 0) \<and>
   (split t '':'' = [m, sec] \<longrightarrow>
      parseTimeToSeconds t = Num (orZero (parseInt m 10) * 60 + orZero (parseInt sec 10))) \<and>
   (split t '':'' = [m, sec] \<and> parseInt m 10 = NaN \<and> parseInt sec 10 = NaN \<longrightarrow>
      parseTimeToSeconds t = Num 0)"
proof -
  have a: "parseDuration ''00:00'' = Num 0 \<and> parseDuration ''02:30'' = Num 150 \<and>
           parseTimeToSeconds ''02:30'' = Num 150"
    by code_simp
  have b1: "count_list s (CHR '':'') \<noteq> 1 \<Longrightarrow> parseDuration s = Num 0"
    by (simp add: parseDuration_def length_split_colon Let_def)
  have b2: "count_list s (CHR '':'') \<noteq> 1 \<Longrightarrow> parseTimeToSeconds s = Num 0"
    by (simp add: parseTimeToSeconds_def length_split_colon Let_def)
  have c: "parseTimeToSeconds t = Num (orZero (parseInt m 10) * 60 + orZero (parseInt sec 10))"
    if h: "split t '':'' = [m, sec]"
  proof (cases "t = ''00:00''")
    case True
    from h have "split ''00:00'' '':'' = [m, sec]" unfolding True .
    then have "[''00'', ''00''] = [m, sec]" unfolding split_00_00 .
    then have "m = ''00''" "sec = ''00''" by auto
    with True show ?thesis by (simp add: parseTimeToSeconds_def parseInt_00)
  next
    case False
    from h split_empty have "t \<noteq> []" by auto
    with False h show ?thesis by (simp add: parseTimeToSeconds_def Let_def)
  qed
  have d: "split t '':'' = [m, sec] \<Longrightarrow> parseInt m 10 = NaN \<Longrightarrow> parseInt sec 10 = NaN \<Longrightarrow>
      parseTimeToSeconds t = Num 0"
    using c by simp
  show ?thesis using a b1 b2 c d by (simp add: parseDuration_def parseTimeToSeconds_def)
qed

text \<open>
  \<open>0230\<close> holds no colon and parses to 0 on both services; the seconds of \<open>30:ab\<close>
  are not a number and the string parses to 1800 on Windows; the two segments of
  \<open>ab:cd\<close> are not numbers and the string parses to 0 on Windows.
\<close>

theorem time_parsing_witness:
  "count_list ''0230'' (CHR '':'') \<noteq> 1 \<and> parseDuration ''0230'' = Num 0 \<and>
   parseTimeToSeconds ''0230'' = Num 0 \<and>
   split ''30:ab'' '':'' = [''30'', ''ab''] \<and> parseInt ''30'' 10 = Num 30 \<and>
   parseInt ''ab'' 10 = NaN \<and> parseTimeToSeconds ''30:ab'' = Num 1800 \<and>
   split ''ab:cd'' '':'' = [''ab'', ''cd''] \<and> parseInt ''cd'' 10 = NaN \<and>
   parseTimeToSeconds ''ab:cd'' = Num 0"
proof -
  have h1: "count_list ''0230'' (CHR '':'') \<noteq> 1" by simp
  have h2: "split ''ab:cd'' '':'' = [''ab'', ''cd'']" "split ''30:ab'' '':'' = [''30'', ''ab'']"
    by code_simp+
  have h3: "parseInt ''ab'' 10 = NaN" "parseInt ''cd'' 10 = NaN" "parseInt ''30'' 10 = Num 30"
    by code_simp+
  from time_parsing [of "''0230''" "''ab:cd''" "''ab''" "''cd''"]
    time_parsing [of "''0230''" "''30:ab''" "''30''" "''ab''"]
  show ?thesis using h1 h2 h3 by simp
qed

text \<open>
  The claim as stated fails on Windows: the minute segment of \<open>ab:30\<close> is not a
  number, and the string parses to 30, not to 0.
\<close>

theorem time_parsing_counterexample:
  "split ''ab:30'' '':'' = [''ab'', ''30''] \<and> parseInt ''ab'' 10 = NaN \<and>
   parseTimeToSeconds ''ab:30'' = Num 30"
  by code_simp

text \<open>
  On Linux a segment that is not a number is not replaced by 0: the result is \<open>NaN\<close>.
\<close>

lemma parseDuration_not_a_number: "parseDuration ''ab:cd'' = NaN"
  by code_simp

section \<open>An unavailable backend\<close>

text \<open>
  Claim C7. With the availability flag false, \<open>getCurrentTrack\<close> of either service
  returns \<open>null\<close> and spawns nothing, and \<open>playPause\<close>, \<open>next\<close> and \<open>previous\<close> of
  either service show one warning, resolve, and spawn nothing.
\<close>

theorem unavailable_is_inert:
  "linux_getCurrentTrack False spawn = \<lparr> result = None, spawned = [], shown = [] \<rparr> \<and>
   windows_getCurrentTrack False path jsonParse spawn =
     \<lparr> result = None, spawned = [], shown = [] \<rparr> \<and>
   linux_playPause False spawn =
     \<lparr> result = Resolved (), spawned = [],
       shown = [Warning
         ''playerctl is not available. Please install it to control music playback.''] \<rparr> \<and>
   linux_next False spawn = linux_playPause False spawn \<and>
   linux_previous False spawn = linux_playPause False spawn \<and>
   windows_playPause False path spawn =
     \<lparr> result = Resolved (), spawned = [], shown = [winKlangWarning] \<rparr> \<and>
   windows_next False path spawn = windows_playPause False path spawn \<and>
   windows_previous False path spawn = windows_playPause False path spawn"
  by (simp add: linux_getCurrentTrack_def windows_getCurrentTrack_def linux_playPause_def
      linux_next_def linux_previous_def linuxControl_def windows_playPause_def windows_next_def
      windows_previous_def windowsSkip_def)

section \<open>A control command that fails\<close>

text \<open>
  Claim C6, as amended. When the helper of the Windows \<open>next\<close> or \<open>previous\<close> exits with
  a code other than 0: if its standard error contains \<open>not available\<close> the command
  resolves and shows one information message; otherwise it is rejected with an error
  that carries the exit code and the standard error. When the helper of a Linux
  command exits with a code other than 0 the command is rejected with an error that
  carries the exit code; the standard error is not read.
\<close>

theorem control_failure:
  "(spawn (path, [''--next'']) = Closed code out err \<and> code \<noteq> Some 0 \<longrightarrow>
      windows_next True path spawn =
        (if sublist ''not available'' err
         then \<lparr> result = Resolved (), spawned = [(path, [''--next''])],
                shown = [Information
                  ''Next track control is not available for the current media player.''] \<rparr>
         else \<lparr> result = Rejected (''WinKlang next failed with code '' @ showCode code @
                                   '': '' @ err),
                spawned = [(path, [''--next''])], shown = [] \<rparr>)) \<and>
   (spawn (path, [''--prev'']) = Closed code out err \<and> code \<noteq> Some 0 \<longrightarrow>
      windows_previous True path spawn =
        (if sublist ''not available'' err
         then \<lparr> result = Resolved (), spawned = [(path, [''--prev''])],
                shown = [Information
                  ''Previous track control is not available for the current media player.''] \<rparr>
         else \<lparr> result = Rejected (''WinKlang previous failed with code '' @ showCode code @
                                   '': '' @ err),
                spawned = [(path, [''--prev''])], shown = [] \<rparr>)) \<and>
   (spawn (''playerctl'', [''play-pause'']) = Closed code out err \<and> code \<noteq> Some 0 \<longrightarrow>
      linux_playPause True spawn =
        \<lparr> result = Rejected (''playerctl play-pause failed with code '' @ showCode code),
          spawned = [(''playerctl'', [''play-pause''])], shown = [] \<rparr>) \<and>
   (spawn (''playerctl'', [''next'']) = Closed code out err \<and> code \<noteq> Some 0 \<longrightarrow>
      linux_next True spawn =
        \<lparr> result = Rejected (''playerctl next failed with code '' @ showCode code),
          spawned = [(''playerctl'', [''next''])], shown = [] \<rparr>) \<and>
   (spawn (''playerctl'', [''previous'']) = Closed code out err \<and> code \<noteq> Some 0 \<longrightarrow>
      linux_previous True spawn =
        \<lparr> result = Rejected (''playerctl previous failed with code '' @ showCode code),
          spawned = [(''playerctl'', [''previous''])], shown = [] \<rparr>)"
  by (simp add: windows_next_def windows_previous_def windowsSkip_def linux_playPause_def
      linux_next_def linux_previous_def linuxControl_def includesStr_sublist)

text \<open>
  A helper that exits with 1 and the marker: the Windows \<open>next\<close> resolves with the
  information message. A helper that exits with 2 and no marker: the Windows
  \<open>previous\<close> and the Linux \<open>next\<close> are rejected.
\<close>

theorem control_failure_witness:
  "notAvailableHelper (''WinKlang.exe'', [''--next'']) =
     Closed (Some 1) [] ''Error: control not available'' \<and>
   sublist ''not available'' ''Error: control not available'' \<and>
   windows_next True ''WinKlang.exe'' notAvailableHelper =
     \<lparr> result = Resolved (), spawned = [(''WinKlang.exe'', [''--next''])],
       shown = [Information
         ''Next track control is not available for the current media player.''] \<rparr> \<and>
   brokenHelper (''WinKlang.exe'', [''--prev'']) = Closed (Some 2) [] ''boom'' \<and>
   windows_previous True ''WinKlang.exe'' brokenHelper =
     \<lparr> result = Rejected ''WinKlang previous failed with code 2: boom'',
       spawned = [(''WinKlang.exe'', [''--prev''])], shown = [] \<rparr> \<and>
   linux_next True brokenHelper =
     \<lparr> result = Rejected ''playerctl next failed with code 2'',
       spawned = [(''playerctl'', [''next''])], shown = [] \<rparr>"
proof -
  have m: "sublist ''not available'' ''Error: control not available''"
    unfolding includesStr_sublist [symmetric] by code_simp
  have n: "\<not> sublist ''not available'' ''boom''"
    unfolding includesStr_sublist [symmetric] by code_simp
  from control_failure [of notAvailableHelper "''WinKlang.exe''" "Some 1" "[]"
      "''Error: control not available''"]
    control_failure [of brokenHelper "''WinKlang.exe''" "Some 2" "[]" "''boom''"]
  show ?thesis using m n
    by (simp add: notAvailableHelper_def brokenHelper_def showCode_def showInt_def showDigit_def)
qed

text \<open>
  The claim as stated fails on Linux: the helper of \<open>playPause\<close> exits with 1 and the
  marker in its standard error, and the command is rejected.
\<close>

theorem control_failure_counterexample:
  "notAvailableHelper (''playerctl'', [''play-pause'']) =
     Closed (Some 1) [] ''Error: control not available'' \<and>
   sublist ''not available'' ''Error: control not available'' \<and>
   linux_playPause True notAvailableHelper =
     \<lparr> result = Rejected ''playerctl play-pause failed with code 1'',
       spawned = [(''playerctl'', [''play-pause''])], shown = [] \<rparr>"
  unfolding includesStr_sublist [symmetric]
  by (simp add: linux_playPause_def linuxControl_def notAvailableHelper_def showCode_def
      showInt_def showDigit_def)

text \<open>
  The Windows \<open>playPause\<close> does not read the standard error either: with the marker it
  is rejected, and its error carries the exit code only.
\<close>

lemma windows_playPause_ignores_marker:
  "windows_playPause True ''WinKlang.exe'' notAvailableHelper =
     \<lparr> result = Rejected ''WinKlang play-pause failed with code 1'',
       spawned = [(''WinKlang.exe'', [''--play-pause''])], shown = [] \<rparr>"
  by (simp add: windows_playPause_def notAvailableHelper_def showCode_def showInt_def showDigit_def)

section \<open>Sampling\<close>

lemma truthy_orElse: "truthy d \<Longrightarrow> truthy (orElse v d)"
  by (simp add: orElse_def split: option.splits)

lemma linuxOnClose_None:
  "linuxOnClose code out = None \<longleftrightarrow>
     code \<noteq> Some 0 \<or> trim out = [] \<or> length (split (trim out) delimiter) < 8"
  by (auto simp: linuxOnClose_def Let_def)

lemma linuxOnClose_Some: "linuxOnClose code out = Some t \<Longrightarrow> fullyResolved t"
  by (auto simp: linuxOnClose_def Let_def fullyResolved_def linuxStatus_nonempty orStr_nonempty
      split: if_splits)

lemma callParseTimeToSeconds_None:
  "callParseTimeToSeconds (orElse v (JStr ''00:00'')) = None \<longleftrightarrow> notAString v"
  by (cases v; cases "the v") (auto simp: callParseTimeToSeconds_def orElse_def notAString_def)

lemma callMapPlaybackStatus_None: "callMapPlaybackStatus v = None \<longleftrightarrow> notAString v"
  by (cases v; cases "the v") (auto simp: callMapPlaybackStatus_def notAString_def)

lemma callMapPlaybackStatus_Some: "callMapPlaybackStatus v = Some st \<Longrightarrow> st \<noteq> []"
  by (cases v; cases "the v")
     (auto simp: callMapPlaybackStatus_def mapPlaybackStatus_nonempty split: if_splits)

lemma windowsTrack_None:
  "windowsTrack data = None \<longleftrightarrow>
     data = JNull \<or> notAString (getProp data ''currentTime'') \<or>
     notAString (getProp data ''duration'') \<or> notAString (getProp data ''status'')"
  using callParseTimeToSeconds_None [of "getProp data ''currentTime''"]
    callParseTimeToSeconds_None [of "getProp data ''duration''"]
    callMapPlaybackStatus_None [of "getProp data ''status''"]
  by (auto simp: windowsTrack_def split: option.splits)

lemma windowsTrack_Some: "windowsTrack data = Some t \<Longrightarrow> fullyResolved t"
  by (auto simp: windowsTrack_def fullyResolved_def truthy_orElse
      dest: callMapPlaybackStatus_Some split: option.splits if_splits)

lemma windowsOnClose_None:
  "windowsOnClose jsonParse code out = None \<longleftrightarrow>
     code \<noteq> Some 0 \<or> trim out = [] \<or> windowsUnparsable jsonParse (trim out)"
  by (auto simp: windowsOnClose_def windowsUnparsable_def windowsTrack_None split: option.splits)

lemma windowsOnClose_Some: "windowsOnClose jsonParse code out = Some t \<Longrightarrow> fullyResolved t"
  by (auto simp: windowsOnClose_def windowsTrack_Some split: option.splits if_splits)

lemma split_nineFields:
  "split (trim nineFields) delimiter =
     [''Song'', ''http://h/1.jpg'', ''Band'', ''One'', ''0:10'', ''3:20'', ''Playing'', ''vlc''] @
     [''extra'']"
  by code_simp

lemma sample_of_nineFields: "result (linux_getCurrentTrack True nineHelper) = Some songTrack"
  by code_simp

lemma sample_of_zero:
  "result (windows_getCurrentTrack True ''WinKlang.exe'' sampleParse zeroHelper) = Some zeroTrack"
  by code_simp

text \<open>
  Claim C8. \<open>getCurrentTrack\<close> never returns a partial track. With the backend
  available and the helper closed, the Linux service returns \<open>null\<close> exactly when the
  exit code is not 0, or the trimmed output is empty, or it splits into fewer than 8
  fields; the Windows service returns \<open>null\<close> exactly when the exit code is not 0, or
  the trimmed output is empty, or it cannot be parsed. Whatever track either service
  returns has every field filled.
\<close>

theorem sample_never_partial:
  "(spawn linuxCall = Closed code out err \<longrightarrow>
      (result (linux_getCurrentTrack True spawn) = None \<longleftrightarrow>
         code \<noteq> Some 0 \<or> trim out = [] \<or> length (split (trim out) delimiter) < 8)) \<and>
   (spawn' (path, [''--json'']) = Closed code' out' err' \<longrightarrow>
      (result (windows_getCurrentTrack True path jsonParse spawn') = None \<longleftrightarrow>
         code' \<noteq> Some 0 \<or> trim out' = [] \<or> windowsUnparsable jsonParse (trim out'))) \<and>
   (result (linux_getCurrentTrack avail spawn) = Some t \<longrightarrow> fullyResolved t) \<and>
   (result (windows_getCurrentTrack avail path jsonParse spawn') = Some t' \<longrightarrow> fullyResolved t')"
proof -
  have l: "spawn linuxCall = Closed code out err \<Longrightarrow>
      result (linux_getCurrentTrack True spawn) = linuxOnClose code out"
    by (simp add: linux_getCurrentTrack_def linuxCall_def)
  have w: "spawn' (path, [''--json'']) = Closed code' out' err' \<Longrightarrow>
      result (windows_getCurrentTrack True path jsonParse spawn') =
        windowsOnClose jsonParse code' out'"
    by (simp add: windows_getCurrentTrack_def)
  have ls: "result (linux_getCurrentTrack avail spawn) = Some t \<Longrightarrow> fullyResolved t"
    by (auto simp: linux_getCurrentTrack_def Let_def dest: linuxOnClose_Some
        split: if_splits childResult.splits)
  have ws: "result (windows_getCurrentTrack avail path jsonParse spawn') = Some t' \<Longrightarrow>
      fullyResolved t'"
    by (auto simp: windows_getCurrentTrack_def Let_def dest: windowsOnClose_Some
        split: if_splits childResult.splits)
  show ?thesis
    using l w ls ws by (simp add: linuxOnClose_None windowsOnClose_None)
qed

text \<open>
  A line of two fields and the JSON text \<open>null\<close> give no track; the line of nine
  fields and an object with \<open>currentTime\<close> alone give tracks with every field filled.
\<close>

theorem sample_never_partial_witness:
  "shortHelper linuxCall = Closed (Some 0) ''Song|||http://h/1.jpg'' [] \<and>
   length (split (trim ''Song|||http://h/1.jpg'') delimiter) < 8 \<and>
   result (linux_getCurrentTrack True shortHelper) = None \<and>
   nullHelper (''WinKlang.exe'', [''--json'']) = Closed (Some 0) ''null'' [] \<and>
   windowsUnparsable sampleParse (trim ''null'') \<and>
   result (windows_getCurrentTrack True ''WinKlang.exe'' sampleParse nullHelper) = None \<and>
   result (linux_getCurrentTrack True nineHelper) = Some songTrack \<and>
   fullyResolved songTrack \<and>
   result (windows_getCurrentTrack True ''WinKlang.exe'' sampleParse zeroHelper) = Some zeroTrack \<and>
   fullyResolved zeroTrack"
proof -
  have h1: "length (split (trim ''Song|||http://h/1.jpg'') delimiter) < 8"
    by code_simp
  have h2: "windowsUnparsable sampleParse (trim ''null'')"
    by code_simp
  from sample_never_partial [of shortHelper "Some 0" "''Song|||http://h/1.jpg''" "[]"
      nullHelper "''WinKlang.exe''" "Some 0" "''null''" "[]" sampleParse]
    sample_never_partial [of nineHelper _ _ _ zeroHelper "''WinKlang.exe''" _ _ _ sampleParse
      True songTrack zeroTrack]
  show ?thesis
    using h1 h2 sample_of_nineFields sample_of_zero
    by (simp add: shortHelper_def nullHelper_def)
qed

text \<open>
  Claim C10. The Linux parser takes any output that splits into 8 fields or more: the
  track is built from the first 8 fields in their order, and the fields after them
  are ignored.
\<close>

theorem linux_extra_fields_ignored:
  "spawn linuxCall = Closed (Some 0) out err \<and>
   split (trim out) delimiter = [f0, f1, f2, f3, f4, f5, f6, f7] @ extra \<longrightarrow>
     result (linux_getCurrentTrack True spawn) =
       Some \<lparr> title = JStr (orStr f0 ''Unknown Title''), artUrl = JStr f1,
              artist = JStr (orStr f2 ''Unknown Artist''),
              album = JStr (orStr f3 ''Unknown Album''),
              duration = Some (parseDuration f5), position = Some (parseDuration f4),
              status = linuxStatus f6, player = Some (orStr f7 ''Unknown Player'') \<rparr>"
  by (cases "trim out = []")
     (simp_all add: linux_getCurrentTrack_def linuxCall_def linuxOnClose_def Let_def orStr_def
        split_def delimiter_def)

text \<open>The line of nine fields gives the track of its first eight.\<close>

theorem linux_extra_fields_ignored_witness:
  "nineHelper linuxCall = Closed (Some 0) nineFields [] \<and>
   split (trim nineFields) delimiter =
     [''Song'', ''http://h/1.jpg'', ''Band'', ''One'', ''0:10'', ''3:20'', ''Playing'', ''vlc''] @
     [''extra''] \<and>
   result (linux_getCurrentTrack True nineHelper) =
     Some \<lparr> title = JStr ''Song'', artUrl = JStr ''http://h/1.jpg'', artist = JStr ''Band'',
            album = JStr ''One'', duration = Some (Num 200), position = Some (Num 10),
            status = ''playing'', player = Some ''vlc'' \<rparr>"
proof -
  have d: "parseDuration ''3:20'' = Num 200" "parseDuration ''0:10'' = Num 10"
    "linuxStatus ''Playing'' = ''playing''"
    by code_simp+
  from linux_extra_fields_ignored [of nineHelper nineFields "[]" "''Song''" "''http://h/1.jpg''"
      "''Band''" "''One''" "''0:10''" "''3:20''" "''Playing''" "''vlc''" "[''extra'']"]
  show ?thesis
    using split_nineFields d by (simp add: orStr_def nineHelper_def)
qed

text \<open>
  Claim C9. The Windows \<open>getPosition\<close> returns \<open>null\<close> for every sampled track whose
  position is 0, and so never returns 0.
\<close>

theorem windows_position_zero_is_null:
  "(result (windows_getCurrentTrack True path jsonParse spawn) = Some t \<and>
    position t = Some (Num 0) \<longrightarrow>
      result (windows_getPosition True path jsonParse spawn) = None) \<and>
   result (windows_getPosition avail path jsonParse spawn) \<noteq> Some (Num 0)"
  by (auto simp: windows_getPosition_def orNull_def Let_def
      split: option.splits jsnum.splits if_splits)

text \<open>The helper reports \<open>00:00\<close>: the track has position 0 and \<open>getPosition\<close> is \<open>null\<close>.\<close>

theorem windows_position_zero_is_null_witness:
  "result (windows_getCurrentTrack True ''WinKlang.exe'' sampleParse zeroHelper) = Some zeroTrack \<and>
   position zeroTrack = Some (Num 0) \<and>
   result (windows_getPosition True ''WinKlang.exe'' sampleParse zeroHelper) = None"
  using windows_position_zero_is_null [of "''WinKlang.exe''" sampleParse zeroHelper zeroTrack True]
    sample_of_zero
  by (simp add: zeroTrack_def)

section \<open>Artwork resolution\<close>

subsection \<open>The store\<close>

lemma ensureDir_fields [simp]:
  "cache (ensureDir w d) = cache w" "files (ensureDir w d) = files w"
  "transfers (ensureDir w d) = transfers w"
  by (simp_all add: ensureDir_def)

lemma ensureDir_idem [simp]: "ensureDir (ensureDir w d) d = ensureDir w d"
  by (simp add: ensureDir_def existsSync_def)

lemma existsSync_transfers [simp]: "existsSync (w\<lparr>transfers := ts\<rparr>) p = existsSync w p"
  by (simp add: existsSync_def)

lemma ensureDir_transfers:
  "ensureDir (w\<lparr>transfers := ts\<rparr>) d = (ensureDir w d)\<lparr>transfers := ts\<rparr>"
  by (simp add: ensureDir_def)

lemma copyFileSync_fields:
  "copyFileSync w src dst = Some w' \<Longrightarrow>
     cache w' = cache w \<and> transfers w' = transfers w @ [Copied src dst]"
  by (auto simp: copyFileSync_def split: option.splits)

subsection \<open>\<open>ArtworkUtil\<close>, branch by branch\<close>

lemma handleFileUrl_cached:
  "fst (handleFileUrl lib sp w url) = Resolved (Some p) \<Longrightarrow>
     cache (snd (handleFileUrl lib sp w url)) url = Some p"
  by (auto simp: handleFileUrl_def getArtworkDirectory_def Let_def
      split: if_splits option.splits)

lemma handleFileUrl_transfers:
  "length (transfers (snd (handleFileUrl lib sp w url))) \<le> Suc (length (transfers w))"
  by (auto simp: handleFileUrl_def getArtworkDirectory_def Let_def
      dest: copyFileSync_fields split: if_splits option.splits)

text \<open>
  \<open>handleHttpUrl\<close> by what stands on disk, what \<open>get\<close> does with the locator and what
  the network does.
\<close>

lemma handleHttpUrl_cases:
  "handleHttpUrl lib sp net w url =
     (let w1 = ensureDir w (pathJoin lib sp ''artwork'');
          lp = httpLocalPath lib sp url
      in if existsSync w1 lp then
           (Resolved (Some (uriFile lib lp)), w1\<lparr>cache := (cache w)(url \<mapsto> uriFile lib lp)\<rparr>)
         else
           case getThrows lib (utilProtocol url) url of
             Some message \<Rightarrow> (Rejected message, w1)
           | None \<Rightarrow>
               let w2 = w1\<lparr>transfers := transfers w @ [Fetched url]\<rparr>
               in if refused net then (Resolved None, w2)
                  else if net = Response 200 Full then
                    (Resolved (Some (uriFile lib lp)),
                     w2\<lparr>files := (files w)(lp \<mapsto> Whole),
                        cache := (cache w)(url \<mapsto> uriFile lib lp)\<rparr>)
                  else if net = Response 200 Cut then
                    (Pending, w2\<lparr>files := (files w)(lp \<mapsto> Partial)\<rparr>)
                  else (Pending, w2))"
proof (cases net)
  case (RequestError m)
  then show ?thesis
    by (simp add: handleHttpUrl_def getArtworkDirectory_def httpLocalPath_def utilProtocol_def
        refused_def Let_def split: option.splits)
next
  case (Response c b)
  then show ?thesis
    by (cases b) (simp_all add: handleHttpUrl_def getArtworkDirectory_def httpLocalPath_def
        utilProtocol_def refused_def Let_def split: option.splits)
qed

lemma handleHttpUrl_cached:
  "fst (handleHttpUrl lib sp net w url) = Resolved (Some p) \<Longrightarrow>
     cache (snd (handleHttpUrl lib sp net w url)) url = Some p"
  by (auto simp: handleHttpUrl_cases Let_def split: if_splits option.splits)

lemma handleHttpUrl_transfers:
  "length (transfers (snd (handleHttpUrl lib sp net w url))) \<le> Suc (length (transfers w))"
  by (auto simp: handleHttpUrl_cases Let_def split: if_splits option.splits)

lemma util_cached:
  "fst (util_downloadArtwork lib ctx net w url) = Resolved (Some p) \<Longrightarrow>
     cache (snd (util_downloadArtwork lib ctx net w url)) url = Some p \<and> url \<noteq> [] \<and>
     ctx \<noteq> None"
  by (auto simp: util_downloadArtwork_def handleFileUrl_cached handleHttpUrl_cached
      split: option.splits if_splits)

lemma util_hit:
  "cache w url = Some p \<Longrightarrow> url \<noteq> [] \<Longrightarrow> ctx \<noteq> None \<Longrightarrow>
     util_downloadArtwork lib ctx net w url = (Resolved (Some p), w)"
  by (auto simp: util_downloadArtwork_def split: option.splits)

lemma util_transfers:
  "length (transfers (snd (util_downloadArtwork lib ctx net w url))) \<le>
     Suc (length (transfers w))"
  by (auto simp: util_downloadArtwork_def handleFileUrl_transfers handleHttpUrl_transfers
      split: option.splits)

text \<open>The HTTP branch of \<open>ArtworkUtil\<close> on a cache miss.\<close>

lemma util_http:
  assumes "url \<noteq> []" "cache w url = None" "\<not> startsWith url ''file://''"
    "startsWith url ''http://'' \<or> startsWith url ''https://''"
  shows "util_downloadArtwork lib (Some sp) net w url = handleHttpUrl lib sp net w url"
  using assms by (simp add: util_downloadArtwork_def)

lemma util_refused:
  assumes "refused net" "url \<noteq> []" "cache w url = None" "\<not> startsWith url ''file://''"
    "startsWith url ''http://'' \<or> startsWith url ''https://''"
    "getThrows lib (utilProtocol url) url = None"
    "\<not> existsSync (ensureDir w (pathJoin lib sp ''artwork'')) (httpLocalPath lib sp url)"
  shows "util_downloadArtwork lib (Some sp) net w url =
     (Resolved None,
      (ensureDir w (pathJoin lib sp ''artwork''))\<lparr>transfers := transfers w @ [Fetched url]\<rparr>)"
  using assms by (simp add: util_http handleHttpUrl_cases Let_def)

lemma util_fetches:
  assumes "url \<noteq> []" "cache w url = None" "\<not> startsWith url ''file://''"
    "startsWith url ''http://'' \<or> startsWith url ''https://''"
    "getThrows lib (utilProtocol url) url = None"
    "\<not> existsSync (ensureDir w (pathJoin lib sp ''artwork'')) (httpLocalPath lib sp url)"
  shows "transfers (snd (util_downloadArtwork lib (Some sp) net w url)) =
     transfers w @ [Fetched url]"
  using assms by (simp add: util_http handleHttpUrl_cases Let_def)

text \<open>
  A locator that \<open>get\<close> does not take: \<open>ArtworkUtil\<close> sends no request, and the call
  is rejected, not resolved with \<open>null\<close>.
\<close>

lemma util_get_throws:
  assumes "url \<noteq> []" "cache w url = None" "\<not> startsWith url ''file://''"
    "startsWith url ''http://'' \<or> startsWith url ''https://''"
    "getThrows lib (utilProtocol url) url = Some message"
    "\<not> existsSync (ensureDir w (pathJoin lib sp ''artwork'')) (httpLocalPath lib sp url)"
  shows "util_downloadArtwork lib (Some sp) net w url =
     (Rejected message, ensureDir w (pathJoin lib sp ''artwork''))"
  using assms by (simp add: util_http handleHttpUrl_cases Let_def)

subsection \<open>The Linux resolver, branch by branch\<close>

lemma downloadFile_cases:
  "downloadFile lib net w url fp =
     (case getThrows lib (linuxProtocol url) url of
        Some message \<Rightarrow> (Rejected message, w)
      | None \<Rightarrow>
          let w1 = w\<lparr>transfers := transfers w @ [Fetched url]\<rparr>
          in case net of
               RequestError m \<Rightarrow> (Rejected m, w1)
             | Response c b \<Rightarrow>
                 if c \<noteq> 200 then (Rejected (''HTTP '' @ showNat c), w1)
                 else case b of
                        Full \<Rightarrow> (Resolved (), w1\<lparr>files := (files w)(fp \<mapsto> Whole)\<rparr>)
                      | Cut \<Rightarrow> (Pending, w1\<lparr>files := (files w)(fp \<mapsto> Partial)\<rparr>)
                      | Unopened m \<Rightarrow> (Rejected m, w1))"
  by (simp add: downloadFile_def linuxProtocol_def Let_def
      split: option.splits response.splits body.splits)

lemma linux_http:
  assumes "url \<noteq> []" "cache w url = None" "\<not> startsWith url ''file://''"
    "startsWith url ''http''"
  shows "linux_downloadArtwork lib sp now net w url =
     (let w0 = ensureDir w (pathJoin lib sp ''uploads'');
          fp = linuxHttpPath lib sp now
      in case getThrows lib (linuxProtocol url) url of
           Some message \<Rightarrow> (Resolved None, w0)
         | None \<Rightarrow>
             let w1 = w0\<lparr>transfers := transfers w @ [Fetched url]\<rparr>
             in if refused net then (Resolved None, w1)
                else if net = Response 200 Full then
                  (Resolved (Some (uriResource lib fp)),
                   w1\<lparr>files := (files w)(fp \<mapsto> Whole),
                      cache := (cache w)(url \<mapsto> uriResource lib fp)\<rparr>)
                else if net = Response 200 Cut then
                  (Pending, w1\<lparr>files := (files w)(fp \<mapsto> Partial)\<rparr>)
                else (Resolved None, w1))"
proof (cases "getThrows lib (linuxProtocol url) url")
  case (Some message)
  then show ?thesis using assms
    by (simp add: linux_downloadArtwork_def downloadFile_cases Let_def)
next
  case None
  show ?thesis
  proof (cases net)
    case (RequestError m)
    with None show ?thesis using assms
      by (simp add: linux_downloadArtwork_def downloadFile_cases refused_def linuxHttpPath_def
          Let_def)
  next
    case (Response c b)
    with None show ?thesis using assms
      by (cases b) (simp_all add: linux_downloadArtwork_def downloadFile_cases refused_def
          linuxHttpPath_def Let_def)
  qed
qed

lemma linux_file:
  assumes "url \<noteq> []" "cache w url = None" "startsWith url ''file://''"
  shows "linux_downloadArtwork lib sp now net w url =
     (let filePath = replaceFirst url ''file://'' [];
          w1 = ensureDir w (pathJoin lib sp ''uploads'');
          targetPath = pathJoin lib (pathJoin lib sp ''uploads'') (basename lib filePath)
      in if \<not> existsSync w filePath then (Resolved None, w)
         else case files w filePath of
                None \<Rightarrow> (Resolved None, w1)
              | Some f \<Rightarrow>
                  (Resolved (Some (uriResource lib targetPath)),
                   w1\<lparr>files := (files w)(targetPath \<mapsto> f),
                      transfers := transfers w @ [Copied filePath targetPath],
                      cache := (cache w)(url \<mapsto> uriResource lib targetPath)\<rparr>))"
  using assms
  by (simp add: linux_downloadArtwork_def copyFileSync_def Let_def split: option.splits)

lemma linux_other:
  assumes "url \<noteq> []" "cache w url = None" "\<not> startsWith url ''file://''"
    "\<not> startsWith url ''http''"
  shows "linux_downloadArtwork lib sp now net w url = (Resolved None, w)"
  using assms by (simp add: linux_downloadArtwork_def)

lemma linux_empty: "linux_downloadArtwork lib sp now net w [] = (Resolved None, w)"
  by (simp add: linux_downloadArtwork_def)

lemma linux_hit:
  "cache w url = Some p \<Longrightarrow> url \<noteq> [] \<Longrightarrow>
     linux_downloadArtwork lib sp now net w url = (Resolved (Some p), w)"
  by (simp add: linux_downloadArtwork_def)

lemma linux_cached:
  assumes "fst (linux_downloadArtwork lib sp now net w url) = Resolved (Some p)"
  shows "cache (snd (linux_downloadArtwork lib sp now net w url)) url = Some p \<and> url \<noteq> []"
proof -
  have ne: "url \<noteq> []"
    using assms by (cases "url = []") (simp_all add: linux_empty)
  show ?thesis
  proof (cases "cache w url")
    case (Some q)
    with assms ne show ?thesis by (simp add: linux_hit)
  next
    case None
    show ?thesis
    proof (cases "startsWith url ''file://''")
      case True
      with assms ne None show ?thesis
        by (simp add: linux_file Let_def split: if_splits option.splits)
    next
      case notfile: False
      show ?thesis
      proof (cases "startsWith url ''http''")
        case True
        with assms ne None notfile show ?thesis
          by (simp add: linux_http Let_def split: if_splits option.splits)
      next
        case False
        with assms ne None notfile show ?thesis by (simp add: linux_other)
      qed
    qed
  qed
qed

lemma linux_transfers:
  "length (transfers (snd (linux_downloadArtwork lib sp now net w url))) \<le>
     Suc (length (transfers w))"
proof (cases "url = []")
  case True
  then show ?thesis by (simp add: linux_empty)
next
  case ne: False
  show ?thesis
  proof (cases "cache w url")
    case (Some q)
    with ne show ?thesis by (simp add: linux_hit)
  next
    case miss: None
    show ?thesis
    proof (cases "startsWith url ''file://''")
      case True
      with ne miss show ?thesis by (simp add: linux_file Let_def split: option.splits)
    next
      case notfile: False
      show ?thesis
      proof (cases "startsWith url ''http''")
        case True
        with ne miss notfile show ?thesis
          by (simp add: linux_http Let_def split: option.splits)
      next
        case False
        with ne miss notfile show ?thesis by (simp add: linux_other)
      qed
    qed
  qed
qed

lemma linux_refused:
  assumes "refused net" "url \<noteq> []" "cache w url = None" "\<not> startsWith url ''file://''"
    "startsWith url ''http''" "getThrows lib (linuxProtocol url) url = None"
  shows "linux_downloadArtwork lib sp now net w url =
     (Resolved None,
      (ensureDir w (pathJoin lib sp ''uploads''))\<lparr>transfers := transfers w @ [Fetched url]\<rparr>)"
  using assms by (simp add: linux_http Let_def)

lemma linux_fetches:
  assumes "url \<noteq> []" "cache w url = None" "\<not> startsWith url ''file://''"
    "startsWith url ''http''" "getThrows lib (linuxProtocol url) url = None"
  shows "transfers (snd (linux_downloadArtwork lib sp now net w url)) =
     transfers w @ [Fetched url]"
  using assms by (simp add: linux_http Let_def)

text \<open>
  A locator that \<open>get\<close> does not take: the Linux resolver sends no request and
  returns \<open>null\<close>.
\<close>

lemma linux_get_throws:
  assumes "url \<noteq> []" "cache w url = None" "\<not> startsWith url ''file://''"
    "startsWith url ''http''" "getThrows lib (linuxProtocol url) url = Some message"
  shows "linux_downloadArtwork lib sp now net w url =
     (Resolved None, ensureDir w (pathJoin lib sp ''uploads''))"
  using assms by (simp add: linux_http Let_def)

lemma invalid_locator_samples:
  "util_downloadArtwork sampleLib (Some ''/store'') (Response 200 Full) emptyStore ''http://'' =
     (Rejected ''Invalid URL'', ensureDir emptyStore ''/store/artwork'') \<and>
   linux_downloadArtwork sampleLib ''/store'' 1700 (Response 200 Full) emptyStore
       ''httpx://h/a.jpg'' =
     (Resolved None, ensureDir emptyStore ''/store/uploads'')"
proof -
  have u: "\<not> startsWith ''http://'' ''file://''" "startsWith ''http://'' ''http://''"
    "getThrows sampleLib (utilProtocol ''http://'') ''http://'' = Some ''Invalid URL''"
    "\<not> existsSync (ensureDir emptyStore (pathJoin sampleLib ''/store'' ''artwork''))
        (httpLocalPath sampleLib ''/store'' ''http://'')"
    "pathJoin sampleLib ''/store'' ''artwork'' = ''/store/artwork''"
    by code_simp+
  have l: "\<not> startsWith ''httpx://h/a.jpg'' ''file://''" "startsWith ''httpx://h/a.jpg'' ''http''"
    "getThrows sampleLib (linuxProtocol ''httpx://h/a.jpg'') ''httpx://h/a.jpg'' =
       Some ''Invalid URL''"
    "pathJoin sampleLib ''/store'' ''uploads'' = ''/store/uploads''"
    by code_simp+
  show ?thesis
    using util_get_throws [of "''http://''" emptyStore sampleLib "''Invalid URL''" "''/store''"
        "Response 200 Full"]
      linux_get_throws [of "''httpx://h/a.jpg''" emptyStore sampleLib "''Invalid URL''"
        "''/store''" 1700 "Response 200 Full"]
      u l
    by (simp add: emptyStore_def)
qed

subsection \<open>A download that fails\<close>

text \<open>
  Claim C4, as amended. When the locator is not cached, no file stands at the computed
  path, \<open>get\<close> takes the locator, and the download fails with a status other than 200
  or with a request error before any response, the resolve call returns \<open>null\<close>,
  leaves the in-memory cache and the files on disk as they were, and a later resolve of
  the same locator issues the request again. This holds for \<open>ArtworkUtil\<close> and for the
  Linux resolver.
\<close>

theorem failed_download_not_cached:
  "(refused net \<and> url \<noteq> [] \<and> cache w url = None \<and> \<not> startsWith url ''file://'' \<and>
    (startsWith url ''http://'' \<or> startsWith url ''https://'') \<and>
    getThrows lib (utilProtocol url) url = None \<and>
    \<not> existsSync (ensureDir w (pathJoin lib sp ''artwork'')) (httpLocalPath lib sp url) \<longrightarrow>
      (let r = util_downloadArtwork lib (Some sp) net w url
       in fst r = Resolved None \<and> cache (snd r) = cache w \<and> files (snd r) = files w \<and>
          transfers (snd r) = transfers w @ [Fetched url] \<and>
          transfers (snd (util_downloadArtwork lib (Some sp) net' (snd r) url)) =
            transfers w @ [Fetched url, Fetched url])) \<and>
   (refused net \<and> url \<noteq> [] \<and> cache w url = None \<and> \<not> startsWith url ''file://'' \<and>
    startsWith url ''http'' \<and> getThrows lib (linuxProtocol url) url = None \<longrightarrow>
      (let r = linux_downloadArtwork lib sp now net w url
       in fst r = Resolved None \<and> cache (snd r) = cache w \<and> files (snd r) = files w \<and>
          transfers (snd r) = transfers w @ [Fetched url] \<and>
          transfers (snd (linux_downloadArtwork lib sp now' net' (snd r) url)) =
            transfers w @ [Fetched url, Fetched url]))"
proof -
  have util: "transfers (snd (util_downloadArtwork lib (Some sp) net'
        ((ensureDir w (pathJoin lib sp ''artwork''))\<lparr>transfers := transfers w @ [Fetched url]\<rparr>)
        url)) =
      transfers w @ [Fetched url, Fetched url]"
    if "url \<noteq> []" "cache w url = None" "\<not> startsWith url ''file://''"
      "startsWith url ''http://'' \<or> startsWith url ''https://''"
      "getThrows lib (utilProtocol url) url = None"
      "\<not> existsSync (ensureDir w (pathJoin lib sp ''artwork'')) (httpLocalPath lib sp url)"
    using that by (simp add: util_fetches ensureDir_transfers)
  have linux: "transfers (snd (linux_downloadArtwork lib sp now' net'
        ((ensureDir w (pathJoin lib sp ''uploads''))\<lparr>transfers := transfers w @ [Fetched url]\<rparr>)
        url)) =
      transfers w @ [Fetched url, Fetched url]"
    if "url \<noteq> []" "cache w url = None" "\<not> startsWith url ''file://''"
      "startsWith url ''http''" "getThrows lib (linuxProtocol url) url = None"
    using that by (simp add: linux_fetches)
  show ?thesis
    using util linux by (simp add: util_refused linux_refused Let_def)
qed

text \<open>
  A 404 and then a success, from an empty store: the first call returns \<open>null\<close> and
  caches nothing, and the second call issues the second request.
\<close>

theorem failed_download_not_cached_witness:
  "refused (Response 404 Full) \<and> sampleUrl \<noteq> [] \<and> cache emptyStore sampleUrl = None \<and>
   \<not> startsWith sampleUrl ''file://'' \<and> startsWith sampleUrl ''http://'' \<and>
   startsWith sampleUrl ''http'' \<and>
   getThrows sampleLib (utilProtocol sampleUrl) sampleUrl = None \<and>
   getThrows sampleLib (linuxProtocol sampleUrl) sampleUrl = None \<and>
   \<not> existsSync (ensureDir emptyStore (pathJoin sampleLib ''/store'' ''artwork''))
        (httpLocalPath sampleLib ''/store'' sampleUrl) \<and>
   fst notFoundFirst = Resolved None \<and> cache (snd notFoundFirst) sampleUrl = None \<and>
   transfers (snd notFoundFirst) = [Fetched sampleUrl] \<and>
   transfers (snd notFoundThenOk) = [Fetched sampleUrl, Fetched sampleUrl] \<and>
   fst linuxNotFoundFirst = Resolved None \<and> cache (snd linuxNotFoundFirst) sampleUrl = None \<and>
   transfers (snd linuxNotFoundThenOk) = [Fetched sampleUrl, Fetched sampleUrl]"
proof -
  have h: "refused (Response 404 Full)" "sampleUrl \<noteq> []" "cache emptyStore sampleUrl = None"
    "\<not> startsWith sampleUrl ''file://''" "startsWith sampleUrl ''http://''"
    "startsWith sampleUrl ''http''"
    "getThrows sampleLib (utilProtocol sampleUrl) sampleUrl = None"
    "getThrows sampleLib (linuxProtocol sampleUrl) sampleUrl = None"
    "\<not> existsSync (ensureDir emptyStore (pathJoin sampleLib ''/store'' ''artwork''))
        (httpLocalPath sampleLib ''/store'' sampleUrl)"
    by code_simp+
  from failed_download_not_cached [of "Response 404 Full" sampleUrl emptyStore sampleLib
      "''/store''" "Response 200 Full" 1700 1800]
  show ?thesis
    using h
    by (simp add: Let_def notFoundFirst_def notFoundThenOk_def linuxNotFoundFirst_def
        linuxNotFoundThenOk_def emptyStore_def)
qed

text \<open>
  The claim as stated fails in \<open>ArtworkUtil\<close> when the body of a 200 response is cut
  off: the call is never resolved, nothing is cached, and the file opened on the final
  path stays on disk partly written. The next resolve of the locator finds that file,
  caches it and returns it, and issues no request.
\<close>

theorem failed_download_counterexample:
  "fst cutFirst = Pending \<and> cache (snd cutFirst) sampleUrl = None \<and>
   files (snd cutFirst) ''/store/artwork/artwork_aHR0cDovL2gvYS5qcGc_.jpg'' = Some Partial \<and>
   fst cutSecond = Resolved (Some ''file:///store/artwork/artwork_aHR0cDovL2gvYS5qcGc_.jpg'') \<and>
   files (snd cutSecond) ''/store/artwork/artwork_aHR0cDovL2gvYS5qcGc_.jpg'' = Some Partial \<and>
   transfers (snd cutSecond) = [Fetched sampleUrl]"
  by code_simp

subsection \<open>Resolving a locator twice\<close>

text \<open>
  Claim C5. Resolving a locator is idempotent: when a resolve of a locator returns a
  local path, a second resolve of the same locator returns the same path from the
  in-memory cache and changes nothing, so it makes no transfer, whatever the network
  and the clock are by then. The first resolve makes at most one transfer, so the two
  calls make at most one. This holds for \<open>ArtworkUtil\<close> and for the Linux resolver.
\<close>

theorem resolve_idempotent:
  "(fst (util_downloadArtwork lib ctx net w url) = Resolved (Some p) \<longrightarrow>
      util_downloadArtwork lib ctx net' (snd (util_downloadArtwork lib ctx net w url)) url =
        (Resolved (Some p), snd (util_downloadArtwork lib ctx net w url)) \<and>
      length (transfers (snd (util_downloadArtwork lib ctx net w url))) \<le>
        Suc (length (transfers w))) \<and>
   (fst (linux_downloadArtwork lib sp now net w url) = Resolved (Some p') \<longrightarrow>
      linux_downloadArtwork lib sp now' net' (snd (linux_downloadArtwork lib sp now net w url))
          url =
        (Resolved (Some p'), snd (linux_downloadArtwork lib sp now net w url)) \<and>
      length (transfers (snd (linux_downloadArtwork lib sp now net w url))) \<le>
        Suc (length (transfers w)))"
  using util_cached [of lib ctx net w url p] linux_cached [of lib sp now net w url p']
  by (auto simp: util_hit linux_hit util_transfers linux_transfers)

text \<open>
  A success and then a network that is down, from an empty store: both calls return
  the path of the first, and one request is made in all.
\<close>

theorem resolve_idempotent_witness:
  "fst resolvedOnce = Resolved (Some ''file:///store/artwork/artwork_aHR0cDovL2gvYS5qcGc_.jpg'') \<and>
   fst resolvedTwice = Resolved (Some ''file:///store/artwork/artwork_aHR0cDovL2gvYS5qcGc_.jpg'') \<and>
   transfers (snd resolvedTwice) = [Fetched sampleUrl] \<and>
   fst linuxOnce = Resolved (Some ''vscode-resource:///store/uploads/artwork_1700.jpg'') \<and>
   fst linuxTwice = Resolved (Some ''vscode-resource:///store/uploads/artwork_1700.jpg'') \<and>
   transfers (snd linuxTwice) = [Fetched sampleUrl]"
proof -
  have u: "fst resolvedOnce =
      Resolved (Some ''file:///store/artwork/artwork_aHR0cDovL2gvYS5qcGc_.jpg'')"
    "transfers (snd resolvedOnce) = [Fetched sampleUrl]"
    by code_simp+
  have l: "fst linuxOnce = Resolved (Some ''vscode-resource:///store/uploads/artwork_1700.jpg'')"
    "transfers (snd linuxOnce) = [Fetched sampleUrl]"
    by code_simp+
  from resolve_idempotent [of sampleLib "Some ''/store''" "Response 200 Full" emptyStore sampleUrl
      "''file:///store/artwork/artwork_aHR0cDovL2gvYS5qcGc_.jpg''" "RequestError ''offline''"
      "''/store''" 1700 "''vscode-resource:///store/uploads/artwork_1700.jpg''" 1800]
  have t: "resolvedTwice =
      (Resolved (Some ''file:///store/artwork/artwork_aHR0cDovL2gvYS5qcGc_.jpg''),
       snd resolvedOnce)"
    "linuxTwice =
      (Resolved (Some ''vscode-resource:///store/uploads/artwork_1700.jpg''), snd linuxOnce)"
    using u l by (simp_all add: resolvedOnce_def [symmetric] resolvedTwice_def [symmetric]
        linuxOnce_def [symmetric] linuxTwice_def [symmetric])
  show ?thesis
    by (simp add: t u l)
qed

end
